theory Spec2Isabelle
  imports Main
begin

section \<open>JavaScript values\<close>

text \<open>
  A JavaScript string is a sequence of UTF-16 code units, so a string is a list of
  code-unit numbers. \<open>js\<close> turns an ASCII literal into such a list. The two check
  marks the parser knows, U+2713 and U+2714, are single code units.
\<close>

type_synonym jschar = nat
type_synonym jsstring = "jschar list"

definition js :: "string \<Rightarrow> jsstring" where
  "js s = map of_char s"

text \<open>Truthiness of a string (\<open>if (s)\<close>): the empty string is falsy.\<close>

definition truthy :: "jsstring \<Rightarrow> bool" where
  "truthy s = (s \<noteq> [])"


text \<open>
  White space as \<open>String.prototype.trim\<close> and the regular-expression class \<open>\s\<close>
  see it: tab, line feed, vertical tab, form feed, carriage return, space, no-break
  space, U+1680, U+2000 to U+200A, the line and paragraph separators, U+202F, U+205F,
  U+3000 and the byte-order mark.
\<close>

definition is_space :: "jschar \<Rightarrow> bool" where
  "is_space c = (c = 9 \<or> c = 10 \<or> c = 11 \<or> c = 12 \<or> c = 13 \<or> c = 32 \<or> c = 160
     \<or> c = 5760 \<or> (8192 \<le> c \<and> c \<le> 8202) \<or> c = 8232 \<or> c = 8233 \<or> c = 8239
     \<or> c = 8287 \<or> c = 12288 \<or> c = 65279)"

definition trim :: "jsstring \<Rightarrow> jsstring" where
  "trim s = rev (dropWhile is_space (rev (dropWhile is_space s)))"

text \<open>Character classes of the regular expressions: \<open>\d\<close>, \<open>\w\<close>, and the line
  terminators that \<open>.\<close> does not match.\<close>

definition is_digit :: "jschar \<Rightarrow> bool" where
  "is_digit c = (48 \<le> c \<and> c \<le> 57)"

definition is_word :: "jschar \<Rightarrow> bool" where
  "is_word c = ((65 \<le> c \<and> c \<le> 90) \<or> (97 \<le> c \<and> c \<le> 122) \<or> is_digit c \<or> c = 95)"

definition is_line_terminator :: "jschar \<Rightarrow> bool" where
  "is_line_terminator c = (c = 10 \<or> c = 13 \<or> c = 8232 \<or> c = 8233)"

definition to_lower :: "jsstring \<Rightarrow> jsstring" where
  "to_lower s = map (\<lambda>c. if 65 \<le> c \<and> c \<le> 90 then c + 32 else c) s"

text \<open>\<open>s.startsWith(p)\<close>, and the first occurrence of \<open>p\<close> in \<open>s\<close>: the text before it
  and the text after it.\<close>

fun starts_with :: "jsstring \<Rightarrow> jsstring \<Rightarrow> bool" where
  "starts_with [] s = True"
| "starts_with (p # ps) [] = False"
| "starts_with (p # ps) (c # cs) = (p = c \<and> starts_with ps cs)"

fun split_first :: "jsstring \<Rightarrow> jsstring \<Rightarrow> (jsstring \<times> jsstring) option" where
  "split_first p [] = (if p = [] then Some ([], []) else None)"
| "split_first p (c # cs) =
     (if starts_with p (c # cs) then Some ([], drop (length p) (c # cs))
      else (case split_first p cs of None \<Rightarrow> None | Some (b, a) \<Rightarrow> Some (c # b, a)))"

text \<open>\<open>s.split(sep)\<close> for a non-empty separator; \<open>acc\<close> holds the current piece,
  reversed.\<close>

function split_acc :: "jsstring \<Rightarrow> jsstring \<Rightarrow> jsstring \<Rightarrow> jsstring list" where
  "split_acc sep acc [] = [rev acc]"
| "split_acc sep acc (c # cs) =
     (if sep \<noteq> [] \<and> starts_with sep (c # cs)
      then rev acc # split_acc sep [] (drop (length sep) (c # cs))
      else split_acc sep (c # acc) cs)"
  by pat_completeness auto
termination
  by (relation "measure (\<lambda>(sep, acc, s). length s)") (auto simp: neq_Nil_conv)

definition split_str :: "jsstring \<Rightarrow> jsstring \<Rightarrow> jsstring list" where
  "split_str sep s = split_acc sep [] s"

text \<open>\<open>pieces.join(sep)\<close>.\<close>

fun join :: "jsstring \<Rightarrow> jsstring list \<Rightarrow> jsstring" where
  "join sep [] = []"
| "join sep [x] = x"
| "join sep (x # y # ys) = x @ sep @ join sep (y # ys)"

text \<open>
  An unanchored regular expression matches at the leftmost position where it can:
  \<open>first_match f s\<close> tries the matcher \<open>f\<close> on every suffix of \<open>s\<close>, from the left, the
  empty suffix included.
\<close>

fun first_match :: "(jsstring \<Rightarrow> 'a option) \<Rightarrow> jsstring \<Rightarrow> 'a option" where
  "first_match f [] = f []"
| "first_match f (c # cs) = (case f (c # cs) of Some r \<Rightarrow> Some r | None \<Rightarrow> first_match f cs)"

text \<open>
  The pattern \<open>\s*(C+)\<close> for a character class \<open>C\<close>, matched at the start of \<open>s\<close>:
  the white space is taken greedily and given back one character at a time until a
  non-empty run of \<open>C\<close> starts; the capture is the longest run from there.
\<close>

definition run_at :: "(jschar \<Rightarrow> bool) \<Rightarrow> jsstring \<Rightarrow> jsstring option" where
  "run_at ok s = (let r = takeWhile ok s in if r = [] then None else Some r)"

fun give_back :: "(jschar \<Rightarrow> bool) \<Rightarrow> jsstring \<Rightarrow> nat \<Rightarrow> jsstring option" where
  "give_back ok s 0 = run_at ok s"
| "give_back ok s (Suc j) =
     (case run_at ok (drop (Suc j) s) of Some r \<Rightarrow> Some r | None \<Rightarrow> give_back ok s j)"

definition ws_then_run :: "(jschar \<Rightarrow> bool) \<Rightarrow> jsstring \<Rightarrow> jsstring option" where
  "ws_then_run ok s = give_back ok s (length (takeWhile is_space s))"

text \<open>Decimal digits of a natural number, as \<open>String(n)\<close> prints them.\<close>

fun digits_of :: "nat \<Rightarrow> jsstring" where
  "digits_of n = (if n < 10 then [48 + n] else digits_of (n div 10) @ [48 + n mod 10])"

declare digits_of.simps [simp del]

text \<open>
  A JavaScript number is a double. Every integer up to \<open>2^53\<close> in magnitude is one;
  a larger integer is rounded to the nearest double, a tie going to the even mantissa
  (the overflow to \<open>Infinity\<close> beyond \<open>2^1024\<close> is left out). \<open>js_add\<close> is
  \<open>a + b\<close> on numbers whose values are integers.
\<close>

fun bit_length :: "nat \<Rightarrow> nat" where
  "bit_length n = (if n = 0 then 0 else Suc (bit_length (n div 2)))"

declare bit_length.simps [simp del]

definition to_double :: "int \<Rightarrow> int" where
  "to_double x =
     (if \<bar>x\<bar> \<le> 2 ^ 53 then x
      else (let n = nat \<bar>x\<bar>;
                s = 2 ^ (bit_length n - 53);
                q = n div s;
                r = n mod s;
                m = (if 2 * r < s then q else if s < 2 * r then q + 1
                     else if even q then q else q + 1)
            in sgn x * int (m * s)))"

definition js_add :: "int \<Rightarrow> int \<Rightarrow> int" where
  "js_add a b = to_double (a + b)"

text \<open>
  Numbers: \<open>NaN\<close> or an integer. \<open>Number.parseInt(s, 10)\<close> skips leading white space,
  reads an optional sign and the longest run of decimal digits, and is \<open>NaN\<close> when
  there is no digit; the value read is rounded to a double.
\<close>

datatype jsnum = NaN | Num int

definition nat_of_digits :: "jsstring \<Rightarrow> nat" where
  "nat_of_digits ds = foldl (\<lambda>a c. 10 * a + (c - 48)) 0 ds"

definition parseInt :: "jsstring \<Rightarrow> jsnum" where
  "parseInt s =
     (let s1 = dropWhile is_space s;
          neg = (case s1 of [] \<Rightarrow> False | c # _ \<Rightarrow> c = 45);
          s2 = (case s1 of [] \<Rightarrow> [] | c # r \<Rightarrow> if c = 45 \<or> c = 43 then r else s1);
          ds = takeWhile is_digit s2
      in if ds = [] then NaN
         else Num (to_double (if neg then - int (nat_of_digits ds) else int (nat_of_digits ds))))"

text \<open>\<open>n || d\<close> for a possibly missing number: \<open>undefined\<close>, \<open>NaN\<close> and \<open>0\<close> are falsy.\<close>

definition num_or :: "jsnum option \<Rightarrow> int \<Rightarrow> int" where
  "num_or n d = (case n of Some (Num i) \<Rightarrow> if i = 0 then d else i | _ \<Rightarrow> d)"

text \<open>A number in a template string.\<close>

definition int_to_string :: "int \<Rightarrow> jsstring" where
  "int_to_string i = (if i < 0 then 45 # digits_of (nat (- i)) else digits_of (nat i))"

section \<open>The plan document (domain/plan)\<close>

datatype plan_status = Planning | InProgress | Blocked | Completed | Failed

record acceptance_criterion =
  description :: jsstring
  completed :: bool
  c_notes :: "jsstring option"

record decision =
  title :: jsstring
  rationale :: jsstring
  alternatives :: "jsstring list option"
  timestamp :: jsnum

record log_entry =
  log_timestamp :: jsnum
  action :: jsstring
  result :: jsstring
  toolsUsed :: "jsstring list"

record plan_metadata =
  createdAt :: int
  updatedAt :: int
  version :: int

record plan =
  status :: plan_status
  goal :: jsstring
  acceptanceCriteria :: "acceptance_criterion list"
  decisionsMade :: "decision list"
  decisionsRejected :: "decision list"
  executionLog :: "log_entry list"
  metadata :: plan_metadata

definition status_name :: "plan_status \<Rightarrow> jsstring" where
  "status_name s = (case s of Planning \<Rightarrow> js ''planning'' | InProgress \<Rightarrow> js ''in_progress''
     | Blocked \<Rightarrow> js ''blocked'' | Completed \<Rightarrow> js ''completed'' | Failed \<Rightarrow> js ''failed'')"

text \<open>
  The \<open>Date\<close> object is the platform's and depends on the time zone. The three uses
  the code makes of it are the fields of an environment: the date part of
  \<open>toISOString()\<close> (which throws a \<open>RangeError\<close> on an invalid date, here \<open>None\<close>),
  the first five characters of \<open>toTimeString()\<close>, and \<open>new Date(date + 'T' + time +
  ':00').getTime()\<close>.
\<close>

record date_env =
  isoDate :: "int \<Rightarrow> jsstring option"
  timeHHMM :: "int \<Rightarrow> jsstring"
  parseLocal :: "jsstring \<Rightarrow> jsstring \<Rightarrow> jsnum"

text \<open>
  A reference environment, for running the code on examples: the time zone is UTC, and
  a date string is read as V8 reads it (months 1 to 12, days 1 to 31, hours 0 to 23 or
  24:00, minutes 0 to 59). Days and the civil calendar are converted both ways.
\<close>

definition civil_from_days :: "int \<Rightarrow> int \<times> int \<times> int" where
  "civil_from_days z0 =
     (let z = z0 + 719468;
          era = z div 146097;
          doe = z - era * 146097;
          yoe = (doe - doe div 1460 + doe div 36524 - doe div 146096) div 365;
          doy = doe - (365 * yoe + yoe div 4 - yoe div 100);
          mp = (5 * doy + 2) div 153;
          d = doy - (153 * mp + 2) div 5 + 1;
          m = (if mp < 10 then mp + 3 else mp - 9);
          y = yoe + era * 400
      in (if m \<le> 2 then y + 1 else y, m, d))"

definition days_from_civil :: "int \<Rightarrow> int \<Rightarrow> int \<Rightarrow> int" where
  "days_from_civil y0 m d =
     (let y = (if m \<le> 2 then y0 - 1 else y0);
          era = y div 400;
          yoe = y - era * 400;
          doy = (153 * (if m > 2 then m - 3 else m + 9) + 2) div 5 + d - 1;
          doe = yoe * 365 + yoe div 4 - yoe div 100 + doy
      in era * 146097 + doe - 719468)"

definition pad_left :: "nat \<Rightarrow> jsstring \<Rightarrow> jsstring" where
  "pad_left n s = replicate (n - length s) 48 @ s"

definition utc_isoDate :: "int \<Rightarrow> jsstring option" where
  "utc_isoDate t =
     (if \<bar>t\<bar> > 8640000000000000 then None
      else (case civil_from_days (t div 86400000) of (y, m, d) \<Rightarrow>
        Some ((if 0 \<le> y \<and> y \<le> 9999 then pad_left 4 (digits_of (nat y))
               else (if y < 0 then 45 else 43) # pad_left 6 (digits_of (nat \<bar>y\<bar>)))
              @ js ''-'' @ pad_left 2 (digits_of (nat m))
              @ js ''-'' @ pad_left 2 (digits_of (nat d)))))"

definition utc_timeHHMM :: "int \<Rightarrow> jsstring" where
  "utc_timeHHMM t = pad_left 2 (digits_of (nat ((t div 3600000) mod 24))) @ js '':''
     @ pad_left 2 (digits_of (nat ((t div 60000) mod 60)))"

definition utc_parseLocal :: "jsstring \<Rightarrow> jsstring \<Rightarrow> jsnum" where
  "utc_parseLocal date time =
     (let y = int (nat_of_digits (take 4 date));
          m = int (nat_of_digits (take 2 (drop 5 date)));
          d = int (nat_of_digits (take 2 (drop 8 date)));
          h = int (nat_of_digits (take 2 time));
          mi = int (nat_of_digits (take 2 (drop 3 time)))
      in if 1 \<le> m \<and> m \<le> 12 \<and> 1 \<le> d \<and> d \<le> 31 \<and> (h \<le> 23 \<or> (h = 24 \<and> mi = 0)) \<and> mi \<le> 59
         then Num ((((days_from_civil y m 1 + (d - 1)) * 24 + h) * 60 + mi) * 60000)
         else NaN)"

definition utc_env :: date_env where
  "utc_env = \<lparr>isoDate = utc_isoDate, timeHHMM = utc_timeHHMM, parseLocal = utc_parseLocal\<rparr>"

section \<open>PlanSerializer\<close>

datatype js_exception = RangeError jsstring

text \<open>The date and the time of a timestamp, as the three entry serializers print them.\<close>

definition date_and_time :: "date_env \<Rightarrow> jsnum \<Rightarrow> js_exception + (jsstring \<times> jsstring)" where
  "date_and_time env ts =
     (case ts of
        NaN \<Rightarrow> Inl (RangeError (js ''Invalid time value''))
      | Num t \<Rightarrow> (case isoDate env t of
                    None \<Rightarrow> Inl (RangeError (js ''Invalid time value''))
                  | Some date \<Rightarrow> Inr (date, timeHHMM env t)))"

text \<open>\<open>xs.map(f)\<close> for an \<open>f\<close> that may throw: the first exception ends the map.\<close>

fun map_throwing :: "('a \<Rightarrow> 'e + 'b) \<Rightarrow> 'a list \<Rightarrow> 'e + 'b list" where
  "map_throwing f [] = Inr []"
| "map_throwing f (x # xs) =
     (case f x of Inl e \<Rightarrow> Inl e
      | Inr y \<Rightarrow> (case map_throwing f xs of Inl e \<Rightarrow> Inl e | Inr ys \<Rightarrow> Inr (y # ys)))"

definition serializeAcceptanceCriteria :: "acceptance_criterion list \<Rightarrow> jsstring" where
  "serializeAcceptanceCriteria criteria =
     (if length criteria = 0
      then js ''## Acceptance Criteria'' @ [10]
           @ js ''- [ ] [Criteria will be added once goal is defined]''
      else js ''## Acceptance Criteria'' @ [10]
           @ join [10] (map (\<lambda>c.
               js ''- '' @ (if completed c then js ''[x]'' else js ''[ ]'') @ js '' ''
               @ description c
               @ (case c_notes c of
                    Some n \<Rightarrow> if truthy n then js '' *('' @ n @ js '')*'' else []
                  | None \<Rightarrow> [])) criteria))"

definition decision_section :: "date_env \<Rightarrow> jsstring \<Rightarrow> jsstring \<Rightarrow> decision
    \<Rightarrow> js_exception + jsstring" where
  "decision_section env alt_label when_label d =
     (case date_and_time env (timestamp d) of
        Inl e \<Rightarrow> Inl e
      | Inr (date, time) \<Rightarrow>
          Inr ([10] @ js ''### '' @ title d
               @ [10] @ js ''**Rationale:** '' @ rationale d
               @ (case alternatives d of
                    Some alts \<Rightarrow> if length alts > 0
                                 then [10] @ alt_label @ js '' '' @ join (js '', '') alts else []
                  | None \<Rightarrow> [])
               @ [10] @ when_label @ js '' '' @ date @ js '' '' @ time))"

definition serializeDecisionsMade :: "date_env \<Rightarrow> decision list \<Rightarrow> js_exception + jsstring" where
  "serializeDecisionsMade env decisions =
     (if length decisions = 0
      then Inr ([10] @ js ''## Decisions Made'' @ [10] @ js ''[No decisions yet]'')
      else (case map_throwing
                   (decision_section env (js ''**Alternatives considered:**'') (js ''**Decided:**''))
                   decisions of
              Inl e \<Rightarrow> Inl e
            | Inr sections \<Rightarrow> Inr ([10] @ js ''## Decisions Made'' @ join [10] sections)))"

definition serializeDecisionsRejected :: "date_env \<Rightarrow> decision list \<Rightarrow> js_exception + jsstring" where
  "serializeDecisionsRejected env decisions =
     (if length decisions = 0
      then Inr ([10] @ js ''## Decisions Rejected'' @ [10] @ js ''[No rejected decisions yet]'')
      else (case map_throwing
                   (decision_section env (js ''**Alternative:**'') (js ''**Rejected:**''))
                   decisions of
              Inl e \<Rightarrow> Inl e
            | Inr sections \<Rightarrow> Inr ([10] @ js ''## Decisions Rejected'' @ join [10] sections)))"

definition log_section :: "date_env \<Rightarrow> log_entry \<Rightarrow> js_exception + jsstring" where
  "log_section env entry =
     (case date_and_time env (log_timestamp entry) of
        Inl e \<Rightarrow> Inl e
      | Inr (date, time) \<Rightarrow>
          Inr ([10] @ js ''### '' @ date @ js '' '' @ time @ js '' - '' @ action entry
               @ [10] @ js ''**Tools:** '' @ join (js '', '') (toolsUsed entry)
               @ [10] @ js ''**Result:** '' @ result entry))"

definition serializeExecutionLog :: "date_env \<Rightarrow> log_entry list \<Rightarrow> js_exception + jsstring" where
  "serializeExecutionLog env log =
     (if length log = 0
      then Inr ([10] @ js ''## Execution Log'' @ [10] @ js ''[No actions taken yet]'')
      else (case map_throwing (log_section env) log of
              Inl e \<Rightarrow> Inl e
            | Inr entries \<Rightarrow> Inr ([10] @ js ''## Execution Log'' @ join [10] entries)))"

definition frontmatter_of :: "plan \<Rightarrow> jsstring" where
  "frontmatter_of p = join [10]
     [js ''---'',
      js ''status: '' @ status_name (status p),
      js ''createdAt: '' @ int_to_string (createdAt (metadata p)),
      js ''updatedAt: '' @ int_to_string (updatedAt (metadata p)),
      js ''version: '' @ int_to_string (version (metadata p)),
      js ''---'',
      []]"

definition serialize :: "date_env \<Rightarrow> plan \<Rightarrow> js_exception + jsstring" where
  "serialize env p =
     (case serializeDecisionsMade env (decisionsMade p) of Inl e \<Rightarrow> Inl e | Inr made \<Rightarrow>
      case serializeDecisionsRejected env (decisionsRejected p) of Inl e \<Rightarrow> Inl e | Inr rejected \<Rightarrow>
      case serializeExecutionLog env (executionLog p) of Inl e \<Rightarrow> Inl e | Inr log \<Rightarrow>
        Inr (frontmatter_of p
             @ join [10]
                 [js ''# Plan: '' @ (if truthy (goal p) then goal p else js ''[Goal to be defined]''),
                  [],
                  js ''**Status:** '' @ status_name (status p),
                  [],
                  js ''## Goal'',
                  (if truthy (goal p) then goal p else js ''[User will provide goal]''),
                  [],
                  serializeAcceptanceCriteria (acceptanceCriteria p),
                  made, rejected, log]))"

section \<open>MessageHistoryManager\<close>

text \<open>
  A history entry is a fresh object on every push, and \<open>truncate\<close> looks the oldest
  kept user message up by object identity (\<open>===\<close>). The model gives every pushed
  message a reference \<open>m_ref\<close>, taken from an allocation counter, and compares those.
  \<open>Date.now()\<close> is an argument of the two operations.
\<close>

datatype msg_role = User | Assistant

record hmessage =
  m_role :: msg_role
  m_content :: jsstring
  m_timestamp :: int
  m_ref :: nat

record history_manager =
  history :: "hmessage list"
  next_ref :: nat

definition maxUserMessages :: nat where "maxUserMessages = 5"

definition new_MessageHistoryManager :: history_manager where
  "new_MessageHistoryManager = \<lparr>history = [], next_ref = 0\<rparr>"

text \<open>
  \<open>Array.prototype.findIndex\<close> (\<open>-1\<close> when nothing matches) and
  \<open>Array.prototype.slice\<close> with one argument (a negative start counts from the end).
\<close>

fun findIndex :: "('a \<Rightarrow> bool) \<Rightarrow> 'a list \<Rightarrow> int" where
  "findIndex P [] = -1"
| "findIndex P (x # xs) =
     (if P x then 0 else (let r = findIndex P xs in if r < 0 then -1 else r + 1))"

definition slice_from :: "int \<Rightarrow> 'a list \<Rightarrow> 'a list" where
  "slice_from i xs = (if i < 0 then drop (nat (int (length xs) + i)) xs else drop (nat i) xs)"

definition truncate_history :: "history_manager \<Rightarrow> history_manager" where
  "truncate_history st =
     (let userMessages = filter (\<lambda>m. m_role m = User) (history st) in
      if length userMessages > maxUserMessages then
        (let keepFromIndex =
               findIndex (\<lambda>m. m_ref m = m_ref (userMessages ! (length userMessages - maxUserMessages)))
                 (history st)
         in st\<lparr>history := slice_from keepFromIndex (history st)\<rparr>)
      else st)"

definition push_message :: "history_manager \<Rightarrow> msg_role \<Rightarrow> jsstring \<Rightarrow> int \<Rightarrow> history_manager" where
  "push_message st r c now =
     \<lparr>history = history st @ [\<lparr>m_role = r, m_content = c, m_timestamp = now, m_ref = next_ref st\<rparr>],
      next_ref = Suc (next_ref st)\<rparr>"

definition addUserMessage :: "history_manager \<Rightarrow> jsstring \<Rightarrow> int \<Rightarrow> history_manager" where
  "addUserMessage st c now = truncate_history (push_message st User c now)"

definition addAssistantMessage :: "history_manager \<Rightarrow> jsstring \<Rightarrow> int \<Rightarrow> history_manager" where
  "addAssistantMessage st c now = push_message st Assistant c now"

definition getHistory :: "history_manager \<Rightarrow> hmessage list" where
  "getHistory st = history st"

text \<open>A session is a sequence of appended turns, run from the empty history.\<close>

datatype turn = UserTurn jsstring int | AssistantTurn jsstring int

fun append_turn :: "history_manager \<Rightarrow> turn \<Rightarrow> history_manager" where
  "append_turn st (UserTurn c now) = addUserMessage st c now"
| "append_turn st (AssistantTurn c now) = addAssistantMessage st c now"

definition run_turns :: "turn list \<Rightarrow> history_manager" where
  "run_turns ts = foldl append_turn new_MessageHistoryManager ts"

text \<open>
  The messages a sequence of turns pushes, in order, whether or not they are still held;
  the number of user messages in a list; the length of the run of assistant messages at
  its front, and of the longest such run anywhere in it.
\<close>

fun turn_message :: "nat \<Rightarrow> turn \<Rightarrow> hmessage" where
  "turn_message r (UserTurn c now) = \<lparr>m_role = User, m_content = c, m_timestamp = now, m_ref = r\<rparr>"
| "turn_message r (AssistantTurn c now) = \<lparr>m_role = Assistant, m_content = c, m_timestamp = now, m_ref = r\<rparr>"

definition all_messages :: "turn list \<Rightarrow> hmessage list" where
  "all_messages ts = map (\<lambda>(r, t). turn_message r t) (zip [0..<length ts] ts)"

definition count_user :: "hmessage list \<Rightarrow> nat" where
  "count_user h = length (filter (\<lambda>m. m_role m = User) h)"

fun assistant_run :: "hmessage list \<Rightarrow> nat" where
  "assistant_run [] = 0"
| "assistant_run (m # ms) = (if m_role m = Assistant then Suc (assistant_run ms) else 0)"

fun longest_assistant_run :: "hmessage list \<Rightarrow> nat" where
  "longest_assistant_run [] = 0"
| "longest_assistant_run (m # ms) = max (assistant_run (m # ms)) (longest_assistant_run ms)"

text \<open>
  The window as the specification describes it: the suffix of a message list that
  begins at its \<open>n\<close>-th user message (counted from 0), and the window over all
  messages ever appended, which is everything while there are at most
  \<open>maxUserMessages\<close> user messages and otherwise begins at the user message that has
  \<open>maxUserMessages - 1\<close> user messages after it.
\<close>

fun from_user :: "nat \<Rightarrow> hmessage list \<Rightarrow> hmessage list" where
  "from_user n [] = []"
| "from_user n (m # ms) =
     (if m_role m = User then (case n of 0 \<Rightarrow> m # ms | Suc k \<Rightarrow> from_user k ms)
      else from_user n ms)"

definition window :: "hmessage list \<Rightarrow> hmessage list" where
  "window msgs =
     (if count_user msgs > maxUserMessages then from_user (count_user msgs - maxUserMessages) msgs
      else msgs)"

fun is_user_turn :: "turn \<Rightarrow> bool" where
  "is_user_turn (UserTurn c now) = True"
| "is_user_turn (AssistantTurn c now) = False"

section \<open>PlanDeserializer\<close>

text \<open>
  Each regular expression of the deserializer is a matcher on the text at one position
  (named \<open>..._at\<close>), run through \<open>first_match\<close>. \<open>Date.now()\<close> is the argument
  \<open>now\<close>, one reading for a whole call. The \<open>sessionId\<close> argument is never used and
  is left out.
\<close>

record parse_error =
  pe_type :: jsstring
  pe_message :: jsstring
  pe_markdown :: jsstring
  suggestedPrompt :: jsstring

definition default_frontmatter :: jsstring where
  "default_frontmatter = js ''status: planning'' @ [10] @ js ''createdAt: 0'' @ [10]
     @ js ''updatedAt: 0'' @ [10] @ js ''version: 1''"

text \<open>\<open>/^---\n([\s\S]*?)\n---\n([\s\S]*)$/\<close>\<close>

definition extractFrontmatter :: "jsstring \<Rightarrow> jsstring \<times> jsstring" where
  "extractFrontmatter markdown =
     (if starts_with (js ''---'' @ [10]) markdown then
        (case split_first ([10] @ js ''---'' @ [10]) (drop 4 markdown) of
           Some (frontmatter, body) \<Rightarrow> (frontmatter, body)
         | None \<Rightarrow> (default_frontmatter, markdown))
      else (default_frontmatter, markdown))"

record partial_metadata =
  p_createdAt :: "jsnum option"
  p_updatedAt :: "jsnum option"
  p_version :: "jsnum option"

text \<open>\<open>value || d\<close> for the second piece of a line split at colons.\<close>

definition value_or :: "jsstring list \<Rightarrow> jsstring \<Rightarrow> jsstring" where
  "value_or rest d = (case rest of [] \<Rightarrow> d | v # _ \<Rightarrow> if truthy v then v else d)"

definition metadata_line :: "partial_metadata \<Rightarrow> jsstring \<Rightarrow> partial_metadata" where
  "metadata_line m line =
     (case map trim (split_str [58] line) of
        [] \<Rightarrow> m
      | key # rest \<Rightarrow>
          if key = js ''createdAt'' then m\<lparr>p_createdAt := Some (parseInt (value_or rest (js ''0'')))\<rparr>
          else if key = js ''updatedAt'' then m\<lparr>p_updatedAt := Some (parseInt (value_or rest (js ''0'')))\<rparr>
          else if key = js ''version'' then m\<lparr>p_version := Some (parseInt (value_or rest (js ''1'')))\<rparr>
          else m)"

definition parseMetadata :: "int \<Rightarrow> jsstring \<Rightarrow> plan_metadata" where
  "parseMetadata now frontmatter =
     (let m = foldl metadata_line \<lparr>p_createdAt = None, p_updatedAt = None, p_version = None\<rparr>
                (split_str [10] frontmatter)
      in \<lparr>createdAt = num_or (p_createdAt m) now,
          updatedAt = num_or (p_updatedAt m) now,
          version = num_or (p_version m) 1\<rparr>)"

text \<open>\<open>/\*\*Status:\*\*\s*(\w+)/\<close>\<close>

definition status_at :: "jsstring \<Rightarrow> jsstring option" where
  "status_at s =
     (if starts_with (js ''**Status:**'') s then ws_then_run is_word (drop 11 s) else None)"

definition parseStatus :: "jsstring \<Rightarrow> plan_status" where
  "parseStatus body =
     (case first_match status_at body of
        None \<Rightarrow> Planning
      | Some w \<Rightarrow>
          (let st = to_lower w in
           if st = js ''planning'' then Planning
           else if st = js ''in_progress'' then InProgress
           else if st = js ''blocked'' then Blocked
           else if st = js ''completed'' then Completed
           else if st = js ''failed'' then Failed
           else Planning))"

text \<open>\<open>/## Goal\n([^\n]+)/\<close>\<close>

definition goal_at :: "jsstring \<Rightarrow> jsstring option" where
  "goal_at s =
     (if starts_with (js ''## Goal'' @ [10]) s then run_at (\<lambda>c. c \<noteq> 10) (drop 8 s) else None)"

definition parseGoal :: "jsstring \<Rightarrow> jsstring" where
  "parseGoal body =
     (case first_match goal_at body of
        None \<Rightarrow> []
      | Some m \<Rightarrow>
          (let g = trim m in
           if \<not> truthy g \<or> g = js ''[User will provide goal]'' then [] else g))"

text \<open>
  \<open>new RegExp(`## ${sectionName}\n([\s\S]*?)(?=\n## |$)`)\<close>: the capture ends before
  the first \<open>\n## \<close> that follows the heading, or at the end of the text.
\<close>

definition section_at :: "jsstring \<Rightarrow> jsstring \<Rightarrow> jsstring option" where
  "section_at sectionName s =
     (let heading = js ''## '' @ sectionName @ [10] in
      if starts_with heading s then
        (let r = drop (length heading) s in
         Some (case split_first ([10] @ js ''## '') r of Some (b, a) \<Rightarrow> b | None \<Rightarrow> r))
      else None)"

definition extractSection :: "jsstring \<Rightarrow> jsstring \<Rightarrow> jsstring option" where
  "extractSection body sectionName =
     (case first_match (section_at sectionName) body of
        None \<Rightarrow> None
      | Some m \<Rightarrow> (let t = trim m in if truthy t then Some t else None))"

text \<open>
  Acceptance criteria: a bracketed \<open>x\<close>, \<open>X\<close>, U+2713 or U+2714 anywhere in the line
  marks it completed; the description is matched by \<open>/\[.\]\s*([^*]+)/\<close> and the
  notes by \<open>/\*\(([^)]+)\)\*/\<close>.
\<close>

definition is_checked :: "jschar \<Rightarrow> bool" where
  "is_checked c = (c = 120 \<or> c = 88 \<or> c = 10003 \<or> c = 10004)"

definition checked_at :: "jsstring \<Rightarrow> unit option" where
  "checked_at s =
     (case s of
        a # b # c # rest \<Rightarrow> if a = 91 \<and> is_checked b \<and> c = 93 then Some () else None
      | _ \<Rightarrow> None)"

definition description_at :: "jsstring \<Rightarrow> jsstring option" where
  "description_at s =
     (case s of
        a # b # c # rest \<Rightarrow>
          if a = 91 \<and> \<not> is_line_terminator b \<and> c = 93
          then ws_then_run (\<lambda>c. c \<noteq> 42) rest else None
      | _ \<Rightarrow> None)"

definition notes_at :: "jsstring \<Rightarrow> jsstring option" where
  "notes_at s =
     (if starts_with (js ''*('') s then
        (let n = takeWhile (\<lambda>c. c \<noteq> 41) (drop 2 s) in
         if n \<noteq> [] \<and> starts_with (js '')*'') (drop (2 + length n) s) then Some n else None)
      else None)"

definition criterion_of_line :: "jsstring \<Rightarrow> acceptance_criterion" where
  "criterion_of_line line =
     \<lparr>description = (case first_match description_at line of None \<Rightarrow> [] | Some d \<Rightarrow> trim d),
      completed = (first_match checked_at line \<noteq> None),
      c_notes = first_match notes_at line\<rparr>"

definition is_list_line :: "jsstring \<Rightarrow> bool" where
  "is_list_line line = starts_with (js ''-'') (trim line)"

definition criteria_of_section :: "jsstring \<Rightarrow> acceptance_criterion list" where
  "criteria_of_section section =
     filter (\<lambda>c. length (description c) > 0)
       (map criterion_of_line (filter is_list_line (split_str [10] section)))"

definition parseAcceptanceCriteria :: "jsstring \<Rightarrow> acceptance_criterion list" where
  "parseAcceptanceCriteria body =
     (case extractSection body (js ''Acceptance Criteria'') of
        None \<Rightarrow> []
      | Some section \<Rightarrow> criteria_of_section section)"

text \<open>
  Decisions: \<open>/\*\*Rationale:\*\*\s*([^\n]+)/\<close>,
  \<open>/\*\*Alternatives[^:]*:\*\*\s*([^\n]+)/\<close> and
  \<open>/(Decided|Rejected):\*\*\s*(\d{4}-\d{2}-\d{2})\s*(\d{2}:\d{2})/\<close>.
  A shape is a list of positions, each a digit (\<open>None\<close>) or a given character.
\<close>

fun match_shape :: "jschar option list \<Rightarrow> jsstring \<Rightarrow> bool" where
  "match_shape [] s = True"
| "match_shape (p # ps) [] = False"
| "match_shape (p # ps) (c # cs) =
     ((case p of None \<Rightarrow> is_digit c | Some l \<Rightarrow> c = l) \<and> match_shape ps cs)"

definition date_shape :: "jschar option list" where
  "date_shape = [None, None, None, None, Some 45, None, None, Some 45, None, None]"

definition time_shape :: "jschar option list" where
  "time_shape = [None, None, Some 58, None, None]"

text \<open>\<open>\s*(\d{2}:\d{2})\<close>: the time and the text after it.\<close>

definition time_at :: "jsstring \<Rightarrow> (jsstring \<times> jsstring) option" where
  "time_at s =
     (let r = dropWhile is_space s in
      if match_shape time_shape r then Some (take 5 r, drop 5 r) else None)"

definition rationale_at :: "jsstring \<Rightarrow> jsstring option" where
  "rationale_at s =
     (if starts_with (js ''**Rationale:**'') s then ws_then_run (\<lambda>c. c \<noteq> 10) (drop 14 s)
      else None)"

definition alternatives_at :: "jsstring \<Rightarrow> jsstring option" where
  "alternatives_at s =
     (if starts_with (js ''**Alternatives'') s then
        (let r = dropWhile (\<lambda>c. c \<noteq> 58) (drop 14 s) in
         if starts_with (js '':**'') r then ws_then_run (\<lambda>c. c \<noteq> 10) (drop 3 r) else None)
      else None)"

definition timestamp_at :: "jsstring \<Rightarrow> (jsstring \<times> jsstring) option" where
  "timestamp_at s =
     (let after = (if starts_with (js ''Decided'') s then Some (drop 7 s)
                   else if starts_with (js ''Rejected'') s then Some (drop 8 s)
                   else None)
      in case after of
           None \<Rightarrow> None
         | Some r \<Rightarrow>
             if starts_with (js '':**'') r then
               (let r1 = dropWhile is_space (drop 3 r) in
                if match_shape date_shape r1 then
                  (case time_at (drop 10 r1) of
                     Some (time, rest) \<Rightarrow> Some (take 10 r1, time)
                   | None \<Rightarrow> None)
                else None)
             else None)"

text \<open>\<open>s.split(',').map(s => s.trim()).filter(Boolean)\<close>\<close>

definition split_trim_filter :: "jsstring \<Rightarrow> jsstring list" where
  "split_trim_filter s = filter truthy (map trim (split_str [44] s))"

definition first_line :: "jsstring \<Rightarrow> jsstring" where
  "first_line s = (case split_str [10] s of [] \<Rightarrow> [] | l # _ \<Rightarrow> l)"

definition decision_of_subsection :: "date_env \<Rightarrow> int \<Rightarrow> jsstring \<Rightarrow> decision list" where
  "decision_of_subsection env now subsection =
     (let t = trim (first_line subsection);
          r = (case first_match rationale_at subsection of None \<Rightarrow> [] | Some m \<Rightarrow> trim m);
          alts = map_option split_trim_filter (first_match alternatives_at subsection);
          ts = (case first_match timestamp_at subsection of
                  Some (date, time) \<Rightarrow> parseLocal env date time
                | None \<Rightarrow> Num now)
      in if truthy t \<and> truthy r
         then [\<lparr>title = t, rationale = r, alternatives = alts, timestamp = ts\<rparr>]
         else [])"

definition parseDecisions :: "date_env \<Rightarrow> int \<Rightarrow> jsstring \<Rightarrow> jsstring \<Rightarrow> decision list" where
  "parseDecisions env now body sectionName =
     (case extractSection body sectionName of
        None \<Rightarrow> []
      | Some section \<Rightarrow>
          concat (map (decision_of_subsection env now)
                    (tl (split_str ([10] @ js ''### '') section))))"

text \<open>
  Execution log: \<open>/(\d{4}-\d{2}-\d{2})\s*(\d{2}:\d{2})\s*-\s*(.+)/\<close> on the first
  line of an entry, \<open>/\*\*Tools:\*\*\s*([^\n]+)/\<close> and \<open>/\*\*Result:\*\*\s*([^\n]+)/\<close>.
\<close>

definition header_at :: "jsstring \<Rightarrow> (jsstring \<times> jsstring \<times> jsstring) option" where
  "header_at s =
     (if match_shape date_shape s then
        (case time_at (drop 10 s) of
           None \<Rightarrow> None
         | Some (time, rest) \<Rightarrow>
             (case dropWhile is_space rest of
                [] \<Rightarrow> None
              | c # r \<Rightarrow>
                  if c = 45 then
                    (case ws_then_run (\<lambda>c. \<not> is_line_terminator c) r of
                       None \<Rightarrow> None
                     | Some a \<Rightarrow> Some (take 10 s, time, a))
                  else None))
      else None)"

definition tools_at :: "jsstring \<Rightarrow> jsstring option" where
  "tools_at s =
     (if starts_with (js ''**Tools:**'') s then ws_then_run (\<lambda>c. c \<noteq> 10) (drop 10 s)
      else None)"

definition result_at :: "jsstring \<Rightarrow> jsstring option" where
  "result_at s =
     (if starts_with (js ''**Result:**'') s then ws_then_run (\<lambda>c. c \<noteq> 10) (drop 11 s)
      else None)"

definition entry_of_subsection :: "date_env \<Rightarrow> jsstring \<Rightarrow> log_entry list" where
  "entry_of_subsection env subsection =
     (case first_match header_at (first_line subsection) of
        None \<Rightarrow> []
      | Some (date, time, act) \<Rightarrow>
          [\<lparr>log_timestamp = parseLocal env date time,
            action = act,
            result = (case first_match result_at subsection of None \<Rightarrow> [] | Some m \<Rightarrow> trim m),
            toolsUsed = (case first_match tools_at subsection of
                           None \<Rightarrow> []
                         | Some m \<Rightarrow> split_trim_filter m)\<rparr>])"

definition parseExecutionLog :: "date_env \<Rightarrow> jsstring \<Rightarrow> log_entry list" where
  "parseExecutionLog env body =
     (case extractSection body (js ''Execution Log'') of
        None \<Rightarrow> []
      | Some section \<Rightarrow>
          concat (map (entry_of_subsection env) (tl (split_str ([10] @ js ''### '') section))))"

text \<open>The prompt sent back to the model after a failed parse.\<close>

definition generateRetryPrompt :: "jsstring \<Rightarrow> int \<Rightarrow> jsstring" where
  "generateRetryPrompt msg now =
     js ''The previous plan format was invalid: '' @ msg @ [10, 10]
     @ js ''Please regenerate the plan following this EXACT format:'' @ [10, 10]
     @ js ''---'' @ [10]
     @ js ''status: planning'' @ [10]
     @ js ''createdAt: '' @ int_to_string now @ [10]
     @ js ''updatedAt: '' @ int_to_string now @ [10]
     @ js ''version: 1'' @ [10]
     @ js ''---'' @ [10, 10]
     @ js ''# Plan: [Your Goal]'' @ [10, 10]
     @ js ''**Status:** planning'' @ [10, 10]
     @ js ''## Goal'' @ [10]
     @ js ''[Clear goal description]'' @ [10, 10]
     @ js ''## Acceptance Criteria'' @ [10]
     @ js ''- [ ] First criterion'' @ [10]
     @ js ''- [ ] Second criterion'' @ [10, 10]
     @ js ''## Decisions Made'' @ [10]
     @ js ''[If no decisions yet, write: '' @ [34] @ js ''No decisions yet'' @ [34] @ js '']'' @ [10, 10]
     @ js ''## Decisions Rejected'' @ [10]
     @ js ''[If no rejected decisions, write: '' @ [34] @ js ''No rejected decisions yet'' @ [34]
     @ js '']'' @ [10, 10]
     @ js ''## Execution Log'' @ [10]
     @ js ''[If no actions yet, write: '' @ [34] @ js ''No actions taken yet'' @ [34] @ js '']''
     @ [10, 10]
     @ js ''CRITICAL RULES:'' @ [10]
     @ js ''- Use lowercase status values: planning, in_progress, blocked, completed, failed'' @ [10]
     @ js ''- Use [ ] for incomplete, [x] for complete checkboxes'' @ [10]
     @ js ''- Include all 5 sections even if empty'' @ [10]
     @ js ''- YAML frontmatter must be valid''"

text \<open>
  The body of the \<open>try\<close> block. On a string every step of it returns: no regular
  expression match, split, trim, \<open>parseInt\<close> or \<open>new Date(...).getTime()\<close> throws.
  So the body always yields a plan, and the \<open>catch\<close> branch of \<open>deserialize\<close>,
  which would wrap the message of a thrown error, is never taken.
\<close>

definition parse_steps :: "date_env \<Rightarrow> int \<Rightarrow> jsstring \<Rightarrow> jsstring + plan" where
  "parse_steps env now markdown =
     (case extractFrontmatter markdown of (frontmatter, body) \<Rightarrow>
        Inr \<lparr>status = parseStatus body,
             goal = parseGoal body,
             acceptanceCriteria = parseAcceptanceCriteria body,
             decisionsMade = parseDecisions env now body (js ''Decisions Made''),
             decisionsRejected = parseDecisions env now body (js ''Decisions Rejected''),
             executionLog = parseExecutionLog env body,
             metadata = parseMetadata now frontmatter\<rparr>)"

definition deserialize :: "date_env \<Rightarrow> int \<Rightarrow> jsstring \<Rightarrow> parse_error + plan" where
  "deserialize env now markdown =
     (case parse_steps env now markdown of
        Inr p \<Rightarrow> Inr p
      | Inl msg \<Rightarrow> Inl \<lparr>pe_type = js ''parse_error'', pe_message = msg, pe_markdown = markdown,
                        suggestedPrompt = generateRetryPrompt msg now\<rparr>)"












text \<open>
  The specification's reading of a checkbox line, to compare the parser with. The marker
  of a line \<open>- [m]...\<close> is the character \<open>m\<close>, and the line is marked checked when
  \<open>m\<close> is one of the recognised glyphs. A plain checkbox line is \<open>- [m] \<close> followed by
  text that holds no further opening bracket. The text of such a line is what follows the
  box up to the first asterisk (where a note begins), without the white space around it;
  the line shows text when its marker is not a line break and that text is not empty.
\<close>

definition checkbox_marker :: "jsstring \<Rightarrow> jschar option" where
  "checkbox_marker line =
     (case line of
        a # b # c # m # d # rest \<Rightarrow> if a = 45 \<and> b = 32 \<and> c = 91 \<and> d = 93 then Some m else None
      | _ \<Rightarrow> None)"

definition marked_checked :: "jsstring \<Rightarrow> bool" where
  "marked_checked line = (case checkbox_marker line of Some m \<Rightarrow> is_checked m | None \<Rightarrow> False)"

definition plain_checkbox_line :: "jsstring \<Rightarrow> bool" where
  "plain_checkbox_line line =
     (case line of
        a # b # c # m # d # e # rest \<Rightarrow>
          a = 45 \<and> b = 32 \<and> c = 91 \<and> d = 93 \<and> e = 32 \<and> 91 \<notin> set rest
      | _ \<Rightarrow> False)"

definition text_of :: "jsstring \<Rightarrow> jsstring" where
  "text_of line = trim (takeWhile (\<lambda>c. c \<noteq> 42) (dropWhile is_space (drop 5 line)))"

definition shows_text :: "jsstring \<Rightarrow> bool" where
  "shows_text line =
     (case checkbox_marker line of
        Some m \<Rightarrow> \<not> is_line_terminator m \<and> text_of line \<noteq> []
      | None \<Rightarrow> False)"

text \<open>Example lines and sections.\<close>

definition stray_glyph_line :: jsstring where
  "stray_glyph_line = js ''- [ ] see [x]''"



definition bold_line :: jsstring where
  "bold_line = js ''- [x] **bold** thing''"

section \<open>PlanManager: saving and loading the plan document\<close>

text \<open>
  The files are a map from paths to contents, and a write to it succeeds. The
  serializer, the deserializer and the model client are the constructor's arguments, so
  they are parameters here; the shipped \<open>PlanManager\<close> is the instance at
  \<open>serialize\<close> and \<open>deserialize\<close>. A call to the model returns the content of the
  response message or fails.
\<close>

type_synonym file_system = "jsstring \<rightharpoonup> jsstring"

definition path_join :: "jsstring \<Rightarrow> jsstring \<Rightarrow> jsstring" where
  "path_join dir name = dir @ js ''/'' @ name"

definition plan_path :: "jsstring \<Rightarrow> jsstring" where
  "plan_path sessionPath = path_join sessionPath (js ''plan_doc.md'')"

definition agents_path :: jsstring where
  "agents_path = js ''~/AGENTS.md''"

datatype manager_error = Thrown js_exception | NoSuchFile jsstring | BackendFailure jsstring

record call_params =
  modelPrompt :: jsstring
  agentMd :: jsstring
  planDoc :: jsstring
  responseFormat :: jsstring
  messageHistory :: "hmessage list"
  responseExamples :: "jsstring list"
  cp_model :: "jsstring option"

record manager_world =
  files :: file_system
  requests :: "call_params list"
  console :: "jsstring list"

definition savePlan :: "(plan \<Rightarrow> js_exception + jsstring) \<Rightarrow> jsstring \<Rightarrow> file_system \<Rightarrow> plan
    \<Rightarrow> manager_error + file_system" where
  "savePlan ser sessionPath fs p =
     (case ser p of
        Inl e \<Rightarrow> Inl (Thrown e)
      | Inr markdown \<Rightarrow> Inr (fs(plan_path sessionPath \<mapsto> markdown)))"

definition getDefaultPlan :: "int \<Rightarrow> int \<Rightarrow> plan" where
  "getDefaultPlan now1 now2 =
     \<lparr>status = Planning, goal = [], acceptanceCriteria = [], decisionsMade = [],
      decisionsRejected = [], executionLog = [],
      metadata = \<lparr>createdAt = now1, updatedAt = now2, version = 1\<rparr>\<rparr>"

definition retry_request :: "jsstring \<Rightarrow> jsstring \<Rightarrow> parse_error \<Rightarrow> call_params" where
  "retry_request agents malformedMarkdown err =
     \<lparr>modelPrompt =
        js ''You are a plan formatter. Fix the malformed plan to match the required format.'',
      agentMd = agents, planDoc = malformedMarkdown, responseFormat = suggestedPrompt err,
      messageHistory = [], responseExamples = [], cp_model = None\<rparr>"

definition retryWithLLM :: "(plan \<Rightarrow> js_exception + jsstring) \<Rightarrow> (int \<Rightarrow> jsstring \<Rightarrow> parse_error + plan)
    \<Rightarrow> (call_params \<Rightarrow> manager_error + jsstring) \<Rightarrow> jsstring \<Rightarrow> int \<Rightarrow> manager_world
    \<Rightarrow> jsstring \<Rightarrow> parse_error \<Rightarrow> (manager_error + plan) \<times> manager_world" where
  "retryWithLLM ser deser ollama sessionPath now w malformedMarkdown err =
     (case files w agents_path of
        None \<Rightarrow> (Inl (NoSuchFile agents_path), w)
      | Some agents \<Rightarrow>
          (let w1 = w\<lparr>requests := requests w @ [retry_request agents malformedMarkdown err]\<rparr> in
           case ollama (retry_request agents malformedMarkdown err) of
             Inl e \<Rightarrow> (Inl e, w1)
           | Inr fixedMarkdown \<Rightarrow>
               (case deser now fixedMarkdown of
                  Inr p \<Rightarrow>
                    (case savePlan ser sessionPath (files w1) p of
                       Inl e \<Rightarrow> (Inl e, w1)
                     | Inr fs \<Rightarrow> (Inr p, w1\<lparr>files := fs\<rparr>))
                | Inl e2 \<Rightarrow>
                    (Inr (getDefaultPlan now now),
                     w1\<lparr>console := console w1
                          @ [js ''LLM retry failed. Using default empty plan.'']\<rparr>))))"

definition loadPlan :: "(plan \<Rightarrow> js_exception + jsstring) \<Rightarrow> (int \<Rightarrow> jsstring \<Rightarrow> parse_error + plan)
    \<Rightarrow> (call_params \<Rightarrow> manager_error + jsstring) \<Rightarrow> jsstring \<Rightarrow> int \<Rightarrow> manager_world
    \<Rightarrow> (manager_error + plan) \<times> manager_world" where
  "loadPlan ser deser ollama sessionPath now w =
     (case files w (plan_path sessionPath) of
        None \<Rightarrow> (Inl (NoSuchFile (plan_path sessionPath)), w)
      | Some markdown \<Rightarrow>
          (case deser now markdown of
             Inr p \<Rightarrow> (Inr p, w)
           | Inl err \<Rightarrow>
               retryWithLLM ser deser ollama sessionPath now
                 (w\<lparr>console := console w
                       @ [js ''Plan parsing failed: '' @ pe_message err
                          @ js ''. Asking LLM to fix format...'']\<rparr>)
                 markdown err))"

text \<open>The manager as it is wired: with the serializer and deserializer above.\<close>

definition PlanManager_savePlan :: "date_env \<Rightarrow> jsstring \<Rightarrow> file_system \<Rightarrow> plan
    \<Rightarrow> manager_error + file_system" where
  "PlanManager_savePlan env = savePlan (serialize env)"

definition PlanManager_loadPlan :: "date_env \<Rightarrow> (call_params \<Rightarrow> manager_error + jsstring)
    \<Rightarrow> jsstring \<Rightarrow> int \<Rightarrow> manager_world \<Rightarrow> (manager_error + plan) \<times> manager_world" where
  "PlanManager_loadPlan env = loadPlan (serialize env) (deserialize env)"

text \<open>
  A deserializer that rejects everything, a model that keeps answering with text that
  is no plan, and a session whose plan file is garbage: an instance to run the recovery
  on.
\<close>

definition failing_deserializer :: "int \<Rightarrow> jsstring \<Rightarrow> parse_error + plan" where
  "failing_deserializer now markdown =
     Inl \<lparr>pe_type = js ''parse_error'', pe_message = js ''bad'', pe_markdown = markdown,
          suggestedPrompt = generateRetryPrompt (js ''bad'') now\<rparr>"

definition broken_world :: manager_world where
  "broken_world =
     \<lparr>files = [plan_path (js ''s'') \<mapsto> js ''garbage'', agents_path \<mapsto> js ''rules''],
      requests = [], console = []\<rparr>"

definition stubborn_model :: "call_params \<Rightarrow> manager_error + jsstring" where
  "stubborn_model request = Inr (js ''still garbage'')"


text \<open>
  Two plans made from the same stored plan, both at version 1, and the text of such a
  plan with a given goal.
\<close>

definition plan_a :: plan where
  "plan_a = (getDefaultPlan 5 5)\<lparr>goal := js ''a''\<rparr>"

definition plan_b :: plan where
  "plan_b = (getDefaultPlan 5 5)\<lparr>goal := js ''b''\<rparr>"

definition text_for_goal :: "jsstring \<Rightarrow> jsstring" where
  "text_for_goal g = js ''---'' @ [10] @ js ''status: planning'' @ [10]
     @ js ''createdAt: 5'' @ [10] @ js ''updatedAt: 5'' @ [10]
     @ js ''version: 1'' @ [10] @ js ''---'' @ [10]
     @ js ''# Plan: '' @ g @ [10, 10]
     @ js ''**Status:** planning'' @ [10, 10]
     @ js ''## Goal'' @ [10] @ g @ [10, 10]
     @ js ''## Acceptance Criteria'' @ [10]
     @ js ''- [ ] [Criteria will be added once goal is defined]'' @ [10, 10]
     @ js ''## Decisions Made'' @ [10] @ js ''[No decisions yet]'' @ [10, 10]
     @ js ''## Decisions Rejected'' @ [10] @ js ''[No rejected decisions yet]'' @ [10, 10]
     @ js ''## Execution Log'' @ [10] @ js ''[No actions taken yet]''"

section \<open>Example plans and their documents\<close>

text \<open>
  The plan of the repository's own round-trip test
  (\<open>tests/unit/plan/PlanSerializer.test.ts\<close>) with the text the serializer prints
  for it in the reference environment, and the empty plan with its text, which is made
  of the placeholders only.
\<close>

definition test_plan :: plan where
  "test_plan = \<lparr>status = InProgress, goal = js ''Create authentication API'',
     acceptanceCriteria = [\<lparr>description = js ''User registration'', completed = True, c_notes = None\<rparr>,
        \<lparr>description = js ''User login'', completed = False, c_notes = Some (js ''Needs JWT'')\<rparr>],
     decisionsMade = [\<lparr>title = js ''Use bcrypt'', rationale = js ''Industry standard'',
        alternatives = Some [js ''argon2'', js ''scrypt''], timestamp = Num 1704630000000\<rparr>],
     decisionsRejected = [],
     executionLog = [\<lparr>log_timestamp = Num 1704630060000, action = js ''Created User model'',
        result = [10003] @ js '' Success'', toolsUsed = [js ''write_file'']\<rparr>],
     metadata = \<lparr>createdAt = 1704630000000, updatedAt = 1704630120000, version = 2\<rparr>\<rparr>"

definition test_frontmatter :: jsstring where
  "test_frontmatter = js ''status: in_progress'' @ [10]
     @ js ''createdAt: 1704630000000'' @ [10] @ js ''updatedAt: 1704630120000'' @ [10]
     @ js ''version: 2''"

definition test_body :: jsstring where
  "test_body = js ''# Plan: Create authentication API'' @ [10, 10]
     @ js ''**Status:** in_progress'' @ [10, 10]
     @ js ''## Goal'' @ [10] @ js ''Create authentication API'' @ [10, 10]
     @ js ''## Acceptance Criteria'' @ [10] @ js ''- [x] User registration'' @ [10]
     @ js ''- [ ] User login *(Needs JWT)*'' @ [10, 10]
     @ js ''## Decisions Made'' @ [10] @ js ''### Use bcrypt'' @ [10]
     @ js ''**Rationale:** Industry standard'' @ [10]
     @ js ''**Alternatives considered:** argon2, scrypt'' @ [10]
     @ js ''**Decided:** 2024-01-07 12:20'' @ [10, 10]
     @ js ''## Decisions Rejected'' @ [10] @ js ''[No rejected decisions yet]'' @ [10, 10]
     @ js ''## Execution Log'' @ [10] @ js ''### 2024-01-07 12:21 - Created User model'' @ [10]
     @ js ''**Tools:** write_file'' @ [10] @ js ''**Result:** '' @ [10003] @ js '' Success''"

definition test_text :: jsstring where
  "test_text = js ''---'' @ [10] @ test_frontmatter @ [10] @ js ''---'' @ [10] @ test_body"

definition empty_plan :: plan where
  "empty_plan = getDefaultPlan 5 5"

definition empty_body :: jsstring where
  "empty_body = js ''# Plan: [Goal to be defined]'' @ [10, 10]
     @ js ''**Status:** planning'' @ [10, 10]
     @ js ''## Goal'' @ [10] @ js ''[User will provide goal]'' @ [10, 10]
     @ js ''## Acceptance Criteria'' @ [10]
     @ js ''- [ ] [Criteria will be added once goal is defined]'' @ [10, 10]
     @ js ''## Decisions Made'' @ [10] @ js ''[No decisions yet]'' @ [10, 10]
     @ js ''## Decisions Rejected'' @ [10] @ js ''[No rejected decisions yet]'' @ [10, 10]
     @ js ''## Execution Log'' @ [10] @ js ''[No actions taken yet]''"

definition empty_text :: jsstring where
  "empty_text = js ''---'' @ [10] @ js ''status: planning'' @ [10]
     @ js ''createdAt: 5'' @ [10] @ js ''updatedAt: 5'' @ [10]
     @ js ''version: 1'' @ [10] @ js ''---'' @ [10] @ empty_body"

definition placeholder_criterion :: acceptance_criterion where
  "placeholder_criterion =
     \<lparr>description = js ''[Criteria will be added once goal is defined]'', completed = False,
      c_notes = None\<rparr>"

section \<open>PlanManager.create and PlanManager.update (domain layer)\<close>

text \<open>
  The plan of the domain layer's \<open>PlanManager\<close>. Timestamps and versions are
  numbers with integer values; \<open>version + 1\<close> is the addition of doubles. \<open>Date.now()\<close> and
  \<open>crypto.randomUUID()\<close> are arguments; \<open>create\<close> reads the clock twice.
  A \<open>PlanUpdate\<close> replaces the fields it carries, and carries no metadata.
\<close>

datatype pm_status = PmPlanning | PmExecuting | PmCompleted | PmFailed

datatype task_status = TPending | TInProgress | TCompleted | TFailed

record architecture_decision =
  ad_title :: jsstring
  ad_rationale :: jsstring
  ad_timestamp :: int

text \<open>An update carries a \<open>Partial<Architecture>\<close>, so every field may be absent.\<close>

record architecture =
  overview :: "jsstring option"
  dataFlow :: "jsstring option"
  arch_decisions :: "architecture_decision list option"

record plan_task =
  task_id :: jsstring
  task_description :: jsstring
  task_status :: task_status
  task_notes :: "jsstring option"
  task_createdAt :: int
  task_updatedAt :: int

record plan_log_entry =
  ple_timestamp :: int
  ple_type :: jsstring
  ple_content :: jsstring
  ple_taskId :: "jsstring option"

record pm_metadata =
  pm_createdAt :: int
  pm_updatedAt :: int
  pm_version :: int
  pm_status :: pm_status

record managed_plan =
  planId :: jsstring
  sessionId :: jsstring
  mp_goal :: jsstring
  mp_goals :: "jsstring list"
  mp_architecture :: architecture
  mp_tasks :: "plan_task list"
  mp_executionLog :: "plan_log_entry list"
  mp_metadata :: pm_metadata

record plan_update =
  upd_goal :: "jsstring option"
  upd_goals :: "jsstring list option"
  upd_architecture :: "architecture option"
  upd_tasks :: "plan_task list option"

datatype validation_error = ValidationError jsstring jsstring

datatype domain_error = DomainError jsstring "validation_error list"

definition create :: "jsstring \<Rightarrow> jsstring \<Rightarrow> jsstring \<Rightarrow> int \<Rightarrow> int \<Rightarrow> managed_plan" where
  "create uuid sid g now1 now2 =
     \<lparr>planId = uuid, sessionId = sid, mp_goal = g, mp_goals = [],
      mp_architecture = \<lparr>overview = Some [], dataFlow = Some [], arch_decisions = Some []\<rparr>,
      mp_tasks = [], mp_executionLog = [],
      mp_metadata = \<lparr>pm_createdAt = now1, pm_updatedAt = now2, pm_version = 1,
                      pm_status = PmPlanning\<rparr>\<rparr>"

definition validate :: "managed_plan \<Rightarrow> validation_error list" where
  "validate plan =
     (if mp_goal plan = [] \<or> length (trim (mp_goal plan)) = 0
      then [ValidationError (js ''goal'') (js ''Goal is required'')] else [])
     @ (if list_ex (\<lambda>t. task_description t = [] \<or> length (trim (task_description t)) = 0)
             (mp_tasks plan)
        then [ValidationError (js ''tasks'') (js ''All tasks must have descriptions'')] else [])"

definition apply_update :: "managed_plan \<Rightarrow> plan_update \<Rightarrow> int \<Rightarrow> managed_plan" where
  "apply_update plan updates now =
     plan\<lparr>mp_goal := (case upd_goal updates of Some g \<Rightarrow> g | None \<Rightarrow> mp_goal plan),
          mp_goals := (case upd_goals updates of Some g \<Rightarrow> g | None \<Rightarrow> mp_goals plan),
          mp_architecture :=
            (case upd_architecture updates of Some a \<Rightarrow> a | None \<Rightarrow> mp_architecture plan),
          mp_tasks := (case upd_tasks updates of Some t \<Rightarrow> t | None \<Rightarrow> mp_tasks plan),
          mp_metadata := (mp_metadata plan)\<lparr>pm_updatedAt := now,
                            pm_version := js_add (pm_version (mp_metadata plan)) 1\<rparr>\<rparr>"

text \<open>
  \<open>update\<close>: the repository is the data layer's; its \<open>save\<close> is a parameter acting
  on a repository state. An invalid update throws before anything is saved.
\<close>

definition update :: "(managed_plan \<Rightarrow> 'r \<Rightarrow> 'r) \<Rightarrow> 'r \<Rightarrow> managed_plan \<Rightarrow> plan_update \<Rightarrow> int
    \<Rightarrow> (domain_error + managed_plan) \<times> 'r" where
  "update save repo plan updates now =
     (let updated = apply_update plan updates now;
          errors = validate updated
      in if errors \<noteq> [] then (Inl (DomainError (js ''Invalid plan update'') errors), repo)
         else (Inr updated, save updated repo))"

text \<open>
  A plan's lifetime: a sequence of updates, each at its own clock reading. A failed
  update throws and the caller is left with the plan it had.
\<close>

fun run_updates :: "(managed_plan \<Rightarrow> 'r \<Rightarrow> 'r) \<Rightarrow> 'r \<Rightarrow> managed_plan \<Rightarrow> (plan_update \<times> int) list
    \<Rightarrow> managed_plan \<times> 'r" where
  "run_updates save repo plan [] = (plan, repo)"
| "run_updates save repo plan ((u, now) # us) =
     (case update save repo plan u now of
        (Inr plan', repo') \<Rightarrow> run_updates save repo' plan' us
      | (Inl _, repo') \<Rightarrow> run_updates save repo' plan us)"

text \<open>No clock reading in a list of updates is earlier than \<open>t\<close>.\<close>

definition never_before :: "int \<Rightarrow> (plan_update \<times> int) list \<Rightarrow> bool" where
  "never_before t us = list_all (\<lambda>(u, now). t \<le> now) us"

definition timestamps_ordered :: "managed_plan \<Rightarrow> bool" where
  "timestamps_ordered plan = (pm_createdAt (mp_metadata plan) \<le> pm_updatedAt (mp_metadata plan))"

text \<open>A plan and an update to run the operations on.\<close>

definition example_plan :: managed_plan where
  "example_plan = create (js ''id'') (js ''s'') (js ''goal'') 100 100"

definition example_update :: plan_update where
  "example_update = \<lparr>upd_goal = Some (js ''new goal''), upd_goals = None,
     upd_architecture = None, upd_tasks = None\<rparr>"

section \<open>ExecutionStage and AgentOrchestrator (domain/agent)\<close>

text \<open>
  A value as \<open>JSON.parse\<close> returns it. An object is the list of its keys with their
  values, each key once; a number is the double \<open>m * 2 ^ e\<close>.
\<close>

datatype json =
    JNull
  | JBool bool
  | JNumber int int
  | JString jsstring
  | JArray "json list"
  | JObject "(jsstring \<times> json) list"

text \<open>
  The two \<open>TypeError\<close>s that reading a parsed value can raise: \<open>key in v\<close> on a
  value that is not an object, and \<open>v.key\<close> on \<open>null\<close>.
\<close>

datatype engine_error = InOnPrimitive jsstring json | PropertyOfNull jsstring

text \<open>
  \<open>key in v\<close> and \<open>v.key\<close> for the keys the orchestrator reads (\<open>tool_calls\<close>,
  \<open>response\<close>, \<open>name\<close>, \<open>parameters\<close>), none of which is a property of an array or
  of a primitive value; \<open>None\<close> is \<open>undefined\<close>.
\<close>

fun in_json :: "jsstring \<Rightarrow> json \<Rightarrow> engine_error + bool" where
  "in_json key (JObject kvs) = Inr (key \<in> set (map fst kvs))"
| "in_json key (JArray xs) = Inr False"
| "in_json key v = Inl (InOnPrimitive key v)"

fun property :: "jsstring \<Rightarrow> json \<Rightarrow> engine_error + json option" where
  "property key (JObject kvs) = Inr (map_of kvs key)"
| "property key JNull = Inl (PropertyOfNull key)"
| "property key v = Inr None"

text \<open>
  The collaborators of the agent are an environment: the model (its answer to the
  \<open>n\<close>-th request may depend on \<open>n\<close>, a failed call throws), the parser of
  \<open>ExecutionStage\<close> (\<open>ExecutionStage.parseResponse\<close> is not shown in the design
  document; it yields the type of the response, \<open>Unrecognized\<close> standing for any type
  the loop does not test for, or throws), \<open>JSON.parse\<close> (a \<open>SyntaxError\<close> is its
  message) and the engine's wording of a \<open>TypeError\<close>, the tool registry, the
  formatter of \<open>ExecutionStage\<close> (not shown either), the user's answer to an approval
  request, the two documents read on every iteration and the clock.
\<close>

record tool_call =
  tc_tool :: "json option"
  tc_args :: "json option"

record parsed_call =
  pc_name :: "json option"
  pc_parameters :: "json option"

record tool_result =
  tr_success :: bool
  tr_output :: "jsstring option"
  tr_error :: "jsstring option"

datatype 'c parsed_response =
    ToolCalls "'c list"
  | FinalResponse jsstring
  | RequestApproval jsstring
  | Unrecognized



record exec_env =
  ollama_at :: "nat \<Rightarrow> call_params \<Rightarrow> manager_error + jsstring"
  parseResponse :: "jsstring \<Rightarrow> jsstring + tool_call parsed_response"
  json_parse :: "jsstring \<Rightarrow> jsstring + json"
  engine_message :: "engine_error \<Rightarrow> jsstring"
  executeBatch :: "tool_call list \<Rightarrow> tool_result list"
  formatToolResults :: "tool_result list \<Rightarrow> jsstring"
  requestUserApproval :: "jsstring \<Rightarrow> bool"
  agents_md :: jsstring
  plan_markdown :: jsstring
  model_prompt :: jsstring
  model_name :: jsstring
  clock :: "nat \<Rightarrow> int"

record exec_state =
  messages_held :: history_manager
  calls_made :: "call_params list"



text \<open>One push onto the history, stamped by the clock.\<close>

definition add_user :: "exec_env \<Rightarrow> jsstring \<Rightarrow> exec_state \<Rightarrow> exec_state" where
  "add_user env c st =
     st\<lparr>messages_held := addUserMessage (messages_held st) c
                           (clock env (next_ref (messages_held st)))\<rparr>"

definition add_assistant :: "exec_env \<Rightarrow> jsstring \<Rightarrow> exec_state \<Rightarrow> exec_state" where
  "add_assistant env c st =
     st\<lparr>messages_held := addAssistantMessage (messages_held st) c
                           (clock env (next_ref (messages_held st)))\<rparr>"





text \<open>
  \<open>AgentOrchestrator.parseResponse\<close>. The body of its \<open>try\<close> block, after
  \<open>JSON.parse\<close>, is \<open>classify\<close>: a failure is the message of the error thrown there.
  The \<open>catch\<close> wraps every such message, that of \<open>JSON.parse\<close> included, in a new
  error, so the method returns tool calls or a final response, or throws.
\<close>

definition parsed_call_of :: "json \<Rightarrow> engine_error + parsed_call" where
  "parsed_call_of call =
     (case property (js ''name'') call of
        Inl e \<Rightarrow> Inl e
      | Inr n \<Rightarrow>
          (case property (js ''parameters'') call of
             Inl e \<Rightarrow> Inl e
           | Inr p \<Rightarrow> Inr \<lparr>pc_name = n, pc_parameters = p\<rparr>))"

definition guarded_property :: "jsstring \<Rightarrow> json \<Rightarrow> engine_error + json option" where
  "guarded_property key v =
     (case in_json key v of
        Inl e \<Rightarrow> Inl e
      | Inr present \<Rightarrow> if present then property key v else Inr None)"

definition classify :: "exec_env \<Rightarrow> json \<Rightarrow> jsstring + parsed_call parsed_response" where
  "classify env v =
     (case guarded_property (js ''tool_calls'') v of
        Inl e \<Rightarrow> Inl (engine_message env e)
      | Inr (Some (JArray calls)) \<Rightarrow>
          (case map_throwing parsed_call_of calls of
             Inl e \<Rightarrow> Inl (engine_message env e)
           | Inr cs \<Rightarrow> Inr (ToolCalls cs))
      | Inr _ \<Rightarrow>
          (case guarded_property (js ''response'') v of
             Inl e \<Rightarrow> Inl (engine_message env e)
           | Inr (Some (JString r)) \<Rightarrow> Inr (FinalResponse r)
           | Inr _ \<Rightarrow> Inl (js ''JSON missing required fields (tool_calls or response)'')))"














section \<open>SimpleOrchestrator and OllamaClient (src/domain/agent, src/data/models)\<close>

datatype chat_role = RSystem | RUser | RAssistant

record chat_message =
  role :: chat_role
  content :: jsstring

record chat_request =
  model :: jsstring
  messages :: "chat_message list"
  stream :: "bool option"

record chat_response =
  resp_model :: jsstring
  created_at :: jsstring
  message :: chat_message
  done_flag :: bool

datatype ollama_code = TIMEOUT | CONNECTION_REFUSED | HTTP_ERROR | UNKNOWN

record ollama_error =
  err_message :: jsstring
  err_code :: ollama_code
  err_status :: "nat option"

text \<open>
  What axios can throw: an AxiosError (with its optional \<open>code\<close>, optional
  \<open>response\<close> carrying status and status text, and a flag for \<open>request\<close>), some
  other \<open>Error\<close>, or a value that is not an \<open>Error\<close>.
\<close>

record axios_error =
  ax_code :: "jsstring option"
  ax_response :: "(nat \<times> jsstring) option"
  ax_request :: bool
  ax_message :: jsstring

datatype thrown = AxiosError axios_error | OtherError jsstring | NotAnError

record ollama_client =
  baseURL :: jsstring
  timeout :: nat

definition transformError :: "ollama_client \<Rightarrow> thrown \<Rightarrow> ollama_error" where
  "transformError c e =
     (case e of
        OtherError m \<Rightarrow> \<lparr>err_message = m, err_code = UNKNOWN, err_status = None\<rparr>
      | NotAnError \<Rightarrow>
          \<lparr>err_message = js ''Unknown error occurred'', err_code = UNKNOWN, err_status = None\<rparr>
      | AxiosError a \<Rightarrow>
          if ax_code a = Some (js ''ECONNABORTED'') then
            \<lparr>err_message = js ''Request timed out after '' @ digits_of (timeout c) @ js ''ms'',
             err_code = TIMEOUT, err_status = None\<rparr>
          else if ax_code a = Some (js ''ECONNREFUSED'') then
            \<lparr>err_message = js ''Cannot connect to Ollama at '' @ baseURL c
                             @ js ''. Is Ollama running?'',
             err_code = CONNECTION_REFUSED, err_status = None\<rparr>
          else (case ax_response a of
                  Some (statusCode, statusText) \<Rightarrow>
                    \<lparr>err_message = js ''Ollama API error: '' @ digits_of statusCode @ js '' ''
                                     @ statusText,
                     err_code = HTTP_ERROR, err_status = Some statusCode\<rparr>
                | None \<Rightarrow>
                    if ax_request a then
                      \<lparr>err_message = js ''Network error: '' @ ax_message a,
                       err_code = UNKNOWN, err_status = None\<rparr>
                    else \<lparr>err_message = ax_message a, err_code = UNKNOWN, err_status = None\<rparr>))"

text \<open>
  \<open>OllamaClient.chat\<close>: the HTTP transport \<open>post\<close> is the environment; it either
  returns the response body or throws. The payload always has \<open>stream: false\<close>.
\<close>

definition chat :: "ollama_client \<Rightarrow> (chat_request \<Rightarrow> thrown + chat_response)
    \<Rightarrow> chat_request \<Rightarrow> ollama_error + chat_response" where
  "chat c post request =
     (case post (request\<lparr>stream := Some False\<rparr>) of
        Inr data \<Rightarrow> Inr data
      | Inl e \<Rightarrow> Inl (transformError c e))"

record simple_orchestrator =
  so_model :: jsstring
  systemPrompt :: "jsstring option"

text \<open>The constructor: the model defaults to deepseek-coder-v2:16b.\<close>

definition new_SimpleOrchestrator :: "jsstring option \<Rightarrow> jsstring option \<Rightarrow> simple_orchestrator" where
  "new_SimpleOrchestrator cfg_model cfg_prompt =
     \<lparr>so_model = (case cfg_model of Some m \<Rightarrow> m | None \<Rightarrow> js ''deepseek-coder-v2:16b''),
      systemPrompt = cfg_prompt\<rparr>"

text \<open>
  The messages array that \<open>processMessage\<close> builds: the system prompt, when it is set
  and truthy, then the user message.
\<close>

definition processMessage_messages :: "simple_orchestrator \<Rightarrow> jsstring \<Rightarrow> chat_message list" where
  "processMessage_messages so userMessage =
     (case systemPrompt so of
        Some p \<Rightarrow> if truthy p then [\<lparr>role = RSystem, content = p\<rparr>] else []
      | None \<Rightarrow> [])
     @ [\<lparr>role = RUser, content = userMessage\<rparr>]"

definition processMessage_request :: "simple_orchestrator \<Rightarrow> jsstring \<Rightarrow> chat_request" where
  "processMessage_request so userMessage =
     \<lparr>model = so_model so, messages = processMessage_messages so userMessage,
      stream = Some False\<rparr>"

text \<open>
  \<open>SimpleOrchestrator.processMessage\<close>, over the injected client's \<open>chat\<close>.
\<close>

definition processMessage :: "simple_orchestrator \<Rightarrow> (chat_request \<Rightarrow> ollama_error + chat_response)
    \<Rightarrow> jsstring \<Rightarrow> ollama_error + jsstring" where
  "processMessage so client_chat userMessage =
     (case client_chat (processMessage_request so userMessage) of
        Inr v \<Rightarrow> Inr (content (message v))
      | Inl e \<Rightarrow> Inl e)"

section \<open>Theorems\<close>

subsection \<open>Running the code on examples\<close>

text \<open>The defining equations that evaluation of the serializer unfolds.\<close>

lemmas serializer_defs = serialize_def frontmatter_of_def serializeAcceptanceCriteria_def
  serializeDecisionsMade_def serializeDecisionsRejected_def serializeExecutionLog_def
  decision_section_def log_section_def date_and_time_def status_name_def int_to_string_def
  digits_of.simps truthy_def js_def utc_env_def utc_isoDate_def utc_timeHHMM_def
  civil_from_days_def pad_left_def

text \<open>The defining equations that evaluation of the string functions and of the
  criteria parser unfolds.\<close>

lemmas string_defs = js_def truthy_def trim_def is_space_def is_digit_def is_word_def
  is_line_terminator_def to_lower_def split_str_def run_at_def ws_then_run_def
  nat_of_digits_def parseInt_def num_or_def to_double_def

lemmas criteria_defs = parseAcceptanceCriteria_def criteria_of_section_def
  criterion_of_line_def is_list_line_def is_checked_def checked_at_def description_at_def
  notes_at_def extractSection_def section_at_def

subsection \<open>The deserializer never fails\<close>






















lemma parse_steps_metadata:
  "\<exists>p. parse_steps env now markdown = Inr p
     \<and> metadata p = parseMetadata now (fst (extractFrontmatter markdown))"
  by (cases "extractFrontmatter markdown") (simp add: parse_steps_def)














subsection \<open>Acceptance criteria\<close>




















text \<open>
  The unanchored test for a checked box is a slip of the parser: on \<open>- [ ] see [x]\<close>,
  whose marker is a space, it finds the \<open>[x]\<close> of the text and the criterion comes out
  completed.
\<close>

lemma stray_glyph_completes:
  "criteria_of_section stray_glyph_line
     = [\<lparr>description = js ''see [x]'', completed = True, c_notes = None\<rparr>]
   \<and> \<not> marked_checked stray_glyph_line"
  by (simp add: stray_glyph_line_def criteria_defs string_defs marked_checked_def
      checkbox_marker_def give_back.simps cong: let_weak_cong)

text \<open>
  A line whose text begins with an asterisk shows no text to the parser: its description
  ends before the first asterisk, so it is empty and the line is dropped.
\<close>

lemma bold_line_dropped:
  "criteria_of_section bold_line = [] \<and> plain_checkbox_line bold_line
   \<and> marked_checked bold_line \<and> \<not> shows_text bold_line"
  by (simp add: bold_line_def criteria_defs string_defs marked_checked_def shows_text_def
      text_of_def plain_checkbox_line_def checkbox_marker_def give_back.simps
      cong: let_weak_cong)






subsection \<open>Round trip\<close>

lemma serialize_test_plan: "serialize utc_env test_plan = Inr test_text"
  by (simp add: test_plan_def test_text_def test_frontmatter_def test_body_def serializer_defs
      cong: let_weak_cong)

lemma test_text_frontmatter: "extractFrontmatter test_text = (test_frontmatter, test_body)"
  by (simp add: extractFrontmatter_def test_text_def test_frontmatter_def js_def)

lemma test_body_decisions:
  "extractSection test_body (js ''Decisions Made'')
     = Some (js ''### Use bcrypt'' @ [10]
     @ js ''**Rationale:** Industry standard'' @ [10]
     @ js ''**Alternatives considered:** argon2, scrypt'' @ [10]
     @ js ''**Decided:** 2024-01-07 12:20'')"
  by (simp add: test_body_def extractSection_def section_at_def string_defs cong: let_weak_cong)

lemma test_body_log:
  "extractSection test_body (js ''Execution Log'')
     = Some (js ''### 2024-01-07 12:21 - Created User model'' @ [10]
     @ js ''**Tools:** write_file'' @ [10] @ js ''**Result:** '' @ [10003] @ js '' Success'')"
  by (simp add: test_body_def extractSection_def section_at_def string_defs cong: let_weak_cong)

lemma test_body_no_decisions: "parseDecisions utc_env now test_body (js ''Decisions Made'') = []"
  by (simp add: parseDecisions_def test_body_decisions) (simp add: split_str_def js_def)

lemma test_body_no_log: "parseExecutionLog utc_env test_body = []"
  by (simp add: parseExecutionLog_def test_body_log) (simp add: split_str_def js_def)

text \<open>
  C1 at the plan of the repository's round-trip test: the serializer prints the one
  decision and the one log entry, and the deserializer returns a plan with no decision
  and no log entry. The section text starts at the first \<open>###\<close> heading, so the
  split at \<open>\n### \<close> leaves the first entry in the piece that \<open>slice(1)\<close> drops.
\<close>

theorem round_trip_loses_first_entries:
  "serialize utc_env test_plan = Inr test_text
   \<and> (case deserialize utc_env 1704630200000 test_text of
         Inr p \<Rightarrow> decisionsMade p = [] \<and> executionLog p = []
       | Inl e \<Rightarrow> False)
   \<and> length (decisionsMade test_plan) = 1 \<and> length (executionLog test_plan) = 1"
  by (simp add: serialize_test_plan deserialize_def parse_steps_def test_text_frontmatter
      test_body_no_decisions test_body_no_log)
     (simp add: test_plan_def)

lemma serialize_empty_plan: "serialize utc_env empty_plan = Inr empty_text"
  by (simp add: empty_plan_def getDefaultPlan_def empty_text_def empty_body_def serializer_defs)

lemma empty_text_frontmatter:
  "snd (extractFrontmatter empty_text) = empty_body"
  by (simp add: extractFrontmatter_def empty_text_def js_def)

lemma empty_body_criteria: "parseAcceptanceCriteria empty_body = [placeholder_criterion]"
  by (simp add: empty_body_def placeholder_criterion_def criteria_defs string_defs
      cong: let_weak_cong)

lemma empty_body_goal: "parseGoal empty_body = []"
  by (simp add: empty_body_def parseGoal_def goal_at_def string_defs cong: let_weak_cong)

lemma empty_body_made: "parseDecisions utc_env now empty_body (js ''Decisions Made'') = []"
  by (simp add: empty_body_def parseDecisions_def extractSection_def section_at_def string_defs
      cong: let_weak_cong)

lemma empty_body_rejected: "parseDecisions utc_env now empty_body (js ''Decisions Rejected'') = []"
  by (simp add: empty_body_def parseDecisions_def extractSection_def section_at_def string_defs
      cong: let_weak_cong)

lemma empty_body_log: "parseExecutionLog utc_env empty_body = []"
  by (simp add: empty_body_def parseExecutionLog_def extractSection_def section_at_def
      string_defs cong: let_weak_cong)

text \<open>
  C4 at the empty plan: its text holds the five placeholders. The goal, both decision
  lists and the log come back empty, as they do for a text without those sections, but
  the placeholder of the acceptance criteria is itself a checkbox line and comes back as
  a criterion, where a text without the section gives none.
\<close>

theorem placeholder_criterion_is_parsed:
  "serialize utc_env empty_plan = Inr empty_text
   \<and> acceptanceCriteria empty_plan = []
   \<and> (case deserialize utc_env 5 empty_text of
         Inr p \<Rightarrow> acceptanceCriteria p = [placeholder_criterion] \<and> goal p = []
                 \<and> decisionsMade p = [] \<and> decisionsRejected p = [] \<and> executionLog p = []
       | Inl e \<Rightarrow> False)
   \<and> parseAcceptanceCriteria (js ''## Goal'' @ [10] @ js ''g'') = []"
proof -
  obtain fm where fm: "extractFrontmatter empty_text = (fm, empty_body)"
    using empty_text_frontmatter by (cases "extractFrontmatter empty_text") simp
  have absent: "parseAcceptanceCriteria (js ''## Goal'' @ [10] @ js ''g'') = []"
    by (simp add: criteria_defs string_defs)
  have parsed: "(case deserialize utc_env 5 empty_text of
         Inr p \<Rightarrow> acceptanceCriteria p = [placeholder_criterion] \<and> goal p = []
                 \<and> decisionsMade p = [] \<and> decisionsRejected p = [] \<and> executionLog p = []
       | Inl e \<Rightarrow> False)"
    by (simp add: deserialize_def parse_steps_def fm empty_body_criteria
        empty_body_goal empty_body_made empty_body_rejected empty_body_log)
  have none: "acceptanceCriteria empty_plan = []"
    by (simp add: empty_plan_def getDefaultPlan_def)
  show ?thesis using serialize_empty_plan none parsed absent by blast
qed

subsection \<open>Execution loop\<close>

lemma held_calls [simp]:
  "calls_made (add_user env c st) = calls_made st"
  "calls_made (add_assistant env c st) = calls_made st"
  by (simp_all add: add_user_def add_assistant_def)







text \<open>
  The parser on the values of the repository's two positive tests: one tool call, and a
  final response.
\<close>

lemma classify_tool_call:
  "classify env (JObject [(js ''tool_calls'',
       JArray [JObject [(js ''name'', JString (js ''read_file'')),
                        (js ''parameters'', JObject [(js ''file_path'', JString (js ''test.ts''))])]])])
     = Inr (ToolCalls [\<lparr>pc_name = Some (JString (js ''read_file'')),
          pc_parameters = Some (JObject [(js ''file_path'', JString (js ''test.ts''))])\<rparr>])"
  by (simp add: classify_def guarded_property_def parsed_call_of_def js_def)

lemma classify_response:
  "classify env (JObject [(js ''response'', JString (js ''Task complete''))])
     = Inr (FinalResponse (js ''Task complete''))"
  by (simp add: classify_def guarded_property_def js_def)








subsection \<open>Recovery on load\<close>

text \<open>
  C6. When the text of the plan file fails to deserialize (and the two files can be read
  and the model answers), \<open>loadPlan\<close> sends exactly one request to the model, which
  carries the malformed text and the corrective prompt of the failure, and runs the
  deserializer again on the answer. If that fails too, the result is the default plan:
  status planning, empty goal, empty collections, version 1. If it succeeds, the result
  is the re-parsed plan, which is also saved. The parse failure itself never reaches
  the caller.
\<close>

theorem load_recovers_from_parse_failure:
  assumes "files w (plan_path sessionPath) = Some markdown"
    and "deser now markdown = Inl err"
    and "files w agents_path = Some agents"
    and "ollama (retry_request agents markdown err) = Inr fixedMarkdown"
  shows "requests (snd (loadPlan ser deser ollama sessionPath now w))
           = requests w @ [retry_request agents markdown err]
    \<and> responseFormat (retry_request agents markdown err) = suggestedPrompt err
    \<and> planDoc (retry_request agents markdown err) = markdown
    \<and> (case deser now fixedMarkdown of
          Inl err2 \<Rightarrow> fst (loadPlan ser deser ollama sessionPath now w) = Inr (getDefaultPlan now now)
        | Inr p \<Rightarrow>
            (case ser p of
               Inr text \<Rightarrow> fst (loadPlan ser deser ollama sessionPath now w) = Inr p
                 \<and> files (snd (loadPlan ser deser ollama sessionPath now w)) (plan_path sessionPath)
                     = Some text
             | Inl e \<Rightarrow> fst (loadPlan ser deser ollama sessionPath now w) = Inl (Thrown e)))
    \<and> getDefaultPlan now now =
        \<lparr>status = Planning, goal = [], acceptanceCriteria = [], decisionsMade = [],
         decisionsRejected = [], executionLog = [],
         metadata = \<lparr>createdAt = now, updatedAt = now, version = 1\<rparr>\<rparr>"
  using assms
  by (simp add: loadPlan_def retryWithLLM_def savePlan_def retry_request_def getDefaultPlan_def
      Let_def plan_path_def path_join_def agents_path_def js_def split: sum.splits)

theorem load_recovers_from_parse_failure_witness:
  "files broken_world (plan_path (js ''s'')) = Some (js ''garbage'')
   \<and> (\<exists>err. failing_deserializer 7 (js ''garbage'') = Inl err)
   \<and> files broken_world agents_path = Some (js ''rules'')
   \<and> length (requests (snd (loadPlan (serialize utc_env) failing_deserializer
         stubborn_model (js ''s'') 7 broken_world))) = 1
   \<and> fst (loadPlan (serialize utc_env) failing_deserializer
         stubborn_model (js ''s'') 7 broken_world) = Inr (getDefaultPlan 7 7)"
proof -
  define err where "err = \<lparr>pe_type = js ''parse_error'', pe_message = js ''bad'',
     pe_markdown = js ''garbage'', suggestedPrompt = generateRetryPrompt (js ''bad'') 7\<rparr>"
  have f1: "files broken_world (plan_path (js ''s'')) = Some (js ''garbage'')"
    by (simp add: broken_world_def plan_path_def path_join_def agents_path_def js_def)
  have f2: "failing_deserializer 7 (js ''garbage'') = Inl err"
    by (simp add: failing_deserializer_def err_def)
  have f3: "files broken_world agents_path = Some (js ''rules'')"
    by (simp add: broken_world_def)
  have f4: "stubborn_model (retry_request (js ''rules'') (js ''garbage'') err)
      = Inr (js ''still garbage'')"
    by (simp add: stubborn_model_def)
  have f5: "failing_deserializer 7 (js ''still garbage'') = Inl (err\<lparr>pe_markdown := js ''still garbage''\<rparr>)"
    by (simp add: failing_deserializer_def err_def)
  have r0: "requests broken_world = []" by (simp add: broken_world_def)
  note t = load_recovers_from_parse_failure[where w = broken_world and sessionPath = "js ''s''"
      and markdown = "js ''garbage''" and deser = failing_deserializer and now = 7
      and err = err and agents = "js ''rules''" and ollama = stubborn_model
      and fixedMarkdown = "js ''still garbage''" and ser = "serialize utc_env",
      OF f1 f2 f3 f4]
  show ?thesis using t f1 f2 f3 f5 r0 by simp
qed

subsection \<open>Message history window\<close>

lemma length_bound_runs:
  "length h \<le> assistant_run h + count_user h * (1 + longest_assistant_run h)
   \<and> assistant_run h \<le> longest_assistant_run h"
proof (induction h)
  case Nil
  then show ?case by (simp add: count_user_def)
next
  case (Cons m ms)
  define c where "c = count_user ms"
  define L where "L = longest_assistant_run ms"
  define L' where "L' = longest_assistant_run (m # ms)"
  have L': "L \<le> L'" "assistant_run (m # ms) \<le> L'" by (simp_all add: L_def L'_def)
  have IH: "length ms \<le> assistant_run ms + (c + c * L)" "assistant_run ms \<le> L"
    using Cons by (simp_all add: c_def L_def)
  have cL: "c * L \<le> c * L'" using L'(1) by simp
  show ?case
  proof (cases "m_role m")
    case User
    then have cu: "count_user (m # ms) = Suc c" and ar: "assistant_run (m # ms) = 0"
      by (simp_all add: count_user_def c_def)
    have "Suc (length ms) \<le> Suc c + (L' + c * L')"
      using IH cL L'(1) by linarith
    then show ?thesis using L'(2) unfolding cu ar L'_def by simp
  next
    case Assistant
    then have cu: "count_user (m # ms) = c" and ar: "assistant_run (m # ms) = Suc (assistant_run ms)"
      by (simp_all add: count_user_def c_def)
    have "Suc (length ms) \<le> Suc (assistant_run ms) + (c + c * L')"
      using IH cL by linarith
    then show ?thesis using L'(2) unfolding cu ar L'_def by simp
  qed
qed

lemma longest_run_drop: "longest_assistant_run (drop n h) \<le> longest_assistant_run h"
proof (induction h arbitrary: n)
  case Nil
  then show ?case by simp
next
  case (Cons m ms)
  show ?case
  proof (cases n)
    case 0
    then show ?thesis by simp
  next
    case (Suc k)
    have "longest_assistant_run (drop k ms) \<le> longest_assistant_run ms" by (rule Cons.IH)
    then show ?thesis using Suc by (simp add: max.coboundedI2)
  qed
qed



lemma all_messages_snoc:
  "all_messages (ts @ [t]) = all_messages ts @ [turn_message (length ts) t]"
  by (simp add: all_messages_def)

lemma turn_message_ref: "m_ref (turn_message r t) = r"
  by (cases t) simp_all

lemma all_messages_refs: "map m_ref (all_messages ts) = [0..<length ts]"
proof (induction ts rule: rev_induct)
  case Nil
  then show ?case by (simp add: all_messages_def)
next
  case (snoc t ts)
  then show ?case by (simp add: all_messages_snoc turn_message_ref)
qed

lemma length_all_messages: "length (all_messages ts) = length ts"
  by (simp add: all_messages_def)

lemma run_turns_snoc: "run_turns (ts @ [t]) = append_turn (run_turns ts) t"
  by (simp add: run_turns_def)



lemma slice_from_nat: "slice_from (int i) xs = drop i xs"
  by (simp add: slice_from_def)

lemma findIndex_from_user:
  "distinct (map m_ref h) \<Longrightarrow> j < length (filter (\<lambda>m. m_role m = User) h) \<Longrightarrow>
   \<exists>i. findIndex (\<lambda>m. m_ref m = m_ref (filter (\<lambda>m. m_role m = User) h ! j)) h = int i
      \<and> drop i h = from_user j h"
proof (induction h arbitrary: j)
  case Nil
  then show ?case by simp
next
  case (Cons x xs)
  define P where "P = (\<lambda>m::hmessage. m_role m = User)"
  show ?case
  proof (cases "P x \<and> j = 0")
    case True
    then show ?thesis by (intro exI[of _ 0]) (simp add: P_def)
  next
    case False
    define j' where "j' = (if P x then j - 1 else j)"
    have fj: "filter P (x # xs) ! j = filter P xs ! j'" and j': "j' < length (filter P xs)"
      using False Cons.prems(2) by (auto simp: j'_def P_def nth_Cons split: nat.splits)
    have "filter P xs ! j' \<in> set xs" using j' by (metis filter_is_subset nth_mem subsetD)
    then have ne: "m_ref x \<noteq> m_ref (filter P xs ! j')" using Cons.prems(1) by auto
    from Cons.IH[OF _ j'[unfolded P_def]] Cons.prems(1) obtain i where
      i: "findIndex (\<lambda>m. m_ref m = m_ref (filter P xs ! j')) xs = int i"
         "drop i xs = from_user j' xs" unfolding P_def by auto
    have fu: "from_user j (x # xs) = from_user j' xs"
      using False by (cases j) (auto simp: j'_def P_def)
    show ?thesis unfolding P_def[symmetric]
      by (intro exI[of _ "Suc i"]) (use i ne fj fu in \<open>simp add: Let_def\<close>)
  qed
qed

lemma count_from_user: "count_user (from_user n xs) = count_user xs - n"
  by (induction n xs rule: from_user.induct) (auto simp: count_user_def split: nat.splits)

lemma from_user_append:
  "n < count_user xs \<Longrightarrow> from_user n (xs @ ys) = from_user n xs @ ys"
  by (induction n xs rule: from_user.induct) (auto simp: count_user_def split: nat.splits)

lemma from_user_from_user: "from_user a (from_user b xs) = from_user (a + b) xs"
  by (induction b xs rule: from_user.induct) (auto split: nat.splits)

lemma from_user_is_drop: "\<exists>k. from_user n xs = drop k xs"
proof (induction n xs rule: from_user.induct)
  case (1 n)
  then show ?case by simp
next
  case (2 n m ms)
  show ?case
  proof (cases "m_role m = User")
    case True
    show ?thesis
    proof (cases n)
      case 0
      then show ?thesis using True by (intro exI[of _ 0]) simp
    next
      case (Suc j)
      from "2.IH"(1)[OF True Suc] obtain k where "from_user j ms = drop k ms" by blast
      then have "from_user n (m # ms) = drop (Suc k) (m # ms)" using True Suc by simp
      then show ?thesis by blast
    qed
  next
    case False
    from "2.IH"(2)[OF False] obtain k where "from_user n ms = drop k ms" by blast
    then have "from_user n (m # ms) = drop (Suc k) (m # ms)" using False by simp
    then show ?thesis by blast
  qed
qed

lemma window_is_drop: "\<exists>k. window xs = drop k xs"
proof (cases "count_user xs > maxUserMessages")
  case True
  then show ?thesis using from_user_is_drop by (simp add: window_def)
next
  case False
  then have "window xs = drop 0 xs" by (simp add: window_def)
  then show ?thesis by blast
qed

lemma count_window: "count_user (window xs) = min maxUserMessages (count_user xs)"
  by (simp add: window_def count_from_user)

lemma truncate_history_window:
  assumes "distinct (map m_ref (history st))"
  shows "history (truncate_history st) = window (history st)
     \<and> next_ref (truncate_history st) = next_ref st"
proof (cases "count_user (history st) > maxUserMessages")
  case False
  then show ?thesis by (simp add: truncate_history_def count_user_def window_def Let_def)
next
  case True
  define n where "n = length (filter (\<lambda>m. m_role m = User) (history st))"
  have n: "n > maxUserMessages" "n = count_user (history st)"
    using True by (simp_all add: n_def count_user_def)
  then have j: "n - maxUserMessages < length (filter (\<lambda>m. m_role m = User) (history st))"
    by (simp add: n_def maxUserMessages_def)
  from findIndex_from_user[OF assms j] obtain i where
    i: "findIndex (\<lambda>m. m_ref m = m_ref (filter (\<lambda>m. m_role m = User) (history st)
            ! (n - maxUserMessages))) (history st) = int i"
       "drop i (history st) = from_user (n - maxUserMessages) (history st)" by blast
  have h: "history (truncate_history st) = drop i (history st)"
    using n(1) i(1) by (simp add: truncate_history_def Let_def n_def[symmetric] slice_from_nat)
  have nr: "next_ref (truncate_history st) = next_ref st"
    by (simp add: truncate_history_def Let_def)
  show ?thesis using h nr i(2) n by (simp add: window_def)
qed

lemma window_snoc_assistant:
  assumes "m_role a = Assistant"
  shows "window (xs @ [a]) = window xs @ [a]"
proof -
  have c: "count_user (xs @ [a]) = count_user xs" using assms by (simp add: count_user_def)
  show ?thesis
  proof (cases "count_user xs > maxUserMessages")
    case True
    then have "count_user xs - maxUserMessages < count_user xs" by (simp add: maxUserMessages_def)
    then show ?thesis using True by (simp add: window_def c from_user_append)
  next
    case False
    then show ?thesis by (simp add: window_def c)
  qed
qed

lemma window_snoc_user:
  assumes "m_role u = User"
  shows "window (window xs @ [u]) = window (xs @ [u])"
proof (cases "count_user xs > maxUserMessages")
  case False
  then show ?thesis by (simp add: window_def)
next
  case True
  define c where "c = count_user xs"
  have c: "c > maxUserMessages" "c - maxUserMessages < count_user xs"
    using True by (simp_all add: c_def maxUserMessages_def)
  have w: "window xs = from_user (c - maxUserMessages) xs" using True by (simp add: window_def c_def)
  have cu: "count_user (xs @ [u]) = Suc c" using assms by (simp add: count_user_def c_def)
  have "count_user (from_user (c - maxUserMessages) xs) = maxUserMessages"
    using c(1) by (simp add: count_from_user c_def)
  then have cw: "count_user (from_user (c - maxUserMessages) xs @ [u]) = Suc maxUserMessages"
    using assms by (simp add: count_user_def)
  have "window (window xs @ [u]) = from_user 1 (from_user (c - maxUserMessages) xs @ [u])"
    unfolding w using cw by (simp add: window_def)
  also have "\<dots> = from_user 1 (from_user (c - maxUserMessages) (xs @ [u]))"
    using c(2) by (simp add: from_user_append)
  also have "\<dots> = from_user (Suc c - maxUserMessages) (xs @ [u])"
    using c(1) by (simp add: from_user_from_user Suc_diff_le)
  also have "\<dots> = window (xs @ [u])" using c(1) by (simp add: window_def cu)
  finally show ?thesis .
qed

lemma run_turns_window:
  "history (run_turns ts) = window (all_messages ts) \<and> next_ref (run_turns ts) = length ts"
proof (induction ts rule: rev_induct)
  case Nil
  then show ?case
    by (simp add: run_turns_def new_MessageHistoryManager_def window_def count_user_def
        all_messages_def)
next
  case (snoc t ts)
  define st where "st = run_turns ts"
  from snoc have h: "history st = window (all_messages ts)" and nr: "next_ref st = length ts"
    by (simp_all add: st_def)
  define msg where "msg = turn_message (length ts) t"
  have am: "all_messages (ts @ [t]) = all_messages ts @ [msg]"
    by (simp add: all_messages_snoc msg_def)
  show ?case
  proof (cases t)
    case (AssistantTurn c now)
    then have r: "m_role msg = Assistant" by (simp add: msg_def)
    have "run_turns (ts @ [t]) = \<lparr>history = history st @ [msg], next_ref = Suc (length ts)\<rparr>"
      using AssistantTurn nr
      by (simp add: run_turns_snoc st_def[symmetric] addAssistantMessage_def push_message_def
          msg_def)
    then show ?thesis by (simp add: h am window_snoc_assistant[OF r])
  next
    case (UserTurn c now)
    then have r: "m_role msg = User" by (simp add: msg_def)
    define st1 where "st1 = \<lparr>history = history st @ [msg], next_ref = Suc (length ts)\<rparr>"
    have st': "run_turns (ts @ [t]) = truncate_history st1"
      using UserTurn nr
      by (simp add: run_turns_snoc st_def[symmetric] addUserMessage_def push_message_def
          msg_def st1_def)
    obtain k where k: "window (all_messages ts) = drop k (all_messages ts)"
      using window_is_drop by blast
    have "distinct (map m_ref (all_messages (ts @ [t])))"
      by (simp add: all_messages_refs del: upt_Suc)
    then have "distinct (map m_ref (drop k (all_messages (ts @ [t]))))"
      by (simp add: drop_map[symmetric] del: upt_Suc)
    moreover have "set (drop k (all_messages ts) @ [msg]) \<subseteq> set (all_messages (ts @ [t]))"
      by (auto simp: am dest: in_set_dropD)
    ultimately have d1: "distinct (map m_ref (history st1))"
    proof -
      have "drop k (all_messages ts) @ [msg] = drop (min k (length (all_messages ts))) (all_messages (ts @ [t]))"
        by (simp add: am min_def)
      moreover have "distinct (map m_ref (drop (min k (length (all_messages ts))) (all_messages (ts @ [t]))))"
        by (simp add: drop_map[symmetric] all_messages_refs del: upt_Suc)
      ultimately show ?thesis by (simp add: st1_def h k)
    qed
    from truncate_history_window[OF d1] show ?thesis
      by (simp add: st' st1_def h am window_snoc_user[OF r])
  qed
qed

lemma count_user_all_messages:
  "count_user (all_messages ts) = length (filter is_user_turn ts)"
proof (induction ts rule: rev_induct)
  case Nil
  then show ?case by (simp add: all_messages_def count_user_def)
next
  case (snoc t ts)
  then show ?case by (cases t) (simp_all add: all_messages_snoc count_user_def)
qed

lemma replies_only_all_kept:
  "length (getHistory (run_turns (replicate n (AssistantTurn c now)))) = n"
proof -
  have "count_user (all_messages (replicate n (AssistantTurn c now))) = 0"
    by (simp add: count_user_all_messages)
  then have "window (all_messages (replicate n (AssistantTurn c now)))
      = all_messages (replicate n (AssistantTurn c now))"
    by (simp add: window_def)
  then show ?thesis by (simp add: getHistory_def run_turns_window length_all_messages)
qed

text \<open>
  The code run on a session of six user messages and two replies: the sixth user message
  evicts the first with its reply, and the reply to the fifth stays.
\<close>

lemma sixth_user_message_evicts_first:
  "map m_content (getHistory (run_turns
      [UserTurn (js ''u1'') 1, AssistantTurn (js ''a1'') 2, UserTurn (js ''u2'') 3,
       UserTurn (js ''u3'') 4, UserTurn (js ''u4'') 5, UserTurn (js ''u5'') 6,
       AssistantTurn (js ''a5'') 7, UserTurn (js ''u6'') 8]))
     = [js ''u2'', js ''u3'', js ''u4'', js ''u5'', js ''a5'', js ''u6'']"
  by (simp add: getHistory_def run_turns_def new_MessageHistoryManager_def addUserMessage_def
      addAssistantMessage_def push_message_def truncate_history_def slice_from_def
      maxUserMessages_def cong: let_weak_cong)

text \<open>
  C7, as stated, fails: the number of messages held is not bounded independently of
  the session length.  Only \<open>addUserMessage\<close> trims; \<open>addAssistantMessage\<close> never does.
  After 50 assistant messages and no user message the history holds all 50 messages, and
  no bound holds for every sequence of appended messages.
\<close>

theorem history_grows_with_replies:
  "length (getHistory (run_turns (replicate 50 (AssistantTurn [] 0)))) = 50
   \<and> count_user (getHistory (run_turns (replicate 50 (AssistantTurn [] 0)))) = 0
   \<and> \<not> (\<exists>bound. \<forall>ts. length (getHistory (run_turns ts)) \<le> bound)"
proof -
  have a: "length (getHistory (run_turns (replicate 50 (AssistantTurn [] 0)))) = 50"
    by (rule replies_only_all_kept)
  have b: "count_user (getHistory (run_turns (replicate 50 (AssistantTurn [] 0)))) = 0"
    by (simp add: getHistory_def run_turns_window count_window count_user_all_messages)
  have c: "\<not> (\<exists>bound. \<forall>ts. length (getHistory (run_turns ts)) \<le> bound)"
  proof
    assume "\<exists>bound. \<forall>ts. length (getHistory (run_turns ts)) \<le> bound"
    then obtain bound where "\<forall>ts. length (getHistory (run_turns ts)) \<le> bound" by blast
    then have "length (getHistory (run_turns (replicate (Suc bound) (AssistantTurn [] 0)))) \<le> bound"
      by blast
    then show False unfolding replies_only_all_kept by simp
  qed
  show ?thesis using a b c by blast
qed

text \<open>
  C7, amended: after any sequence of appended user and assistant messages the history is
  exactly the window over everything appended: all of it while at most 5 messages are user
  messages, otherwise the suffix that begins at the fifth-newest user message.  Hence it
  holds \<open>min 5 u\<close> user messages when \<open>u\<close> were appended, the oldest are evicted
  first, every retained user message keeps all messages appended after it, an assistant
  append only adds the message at the end, and a user append adds the message and then cuts
  to the window.  The number of messages held is at most \<open>5 + 6 * r\<close> where \<open>r\<close> is
  the longest run of consecutive assistant messages ever appended; it is not bounded
  independently of the session length.
\<close>

theorem history_is_window:
  "getHistory (run_turns ts) = window (all_messages ts)
   \<and> maxUserMessages = 5
   \<and> count_user (getHistory (run_turns ts)) = min 5 (length (filter is_user_turn ts))
   \<and> (\<exists>n. getHistory (run_turns ts) = drop n (all_messages ts))
   \<and> getHistory (addAssistantMessage (run_turns ts) c now)
       = getHistory (run_turns ts) @ [turn_message (length ts) (AssistantTurn c now)]
   \<and> getHistory (addUserMessage (run_turns ts) c now)
       = window (getHistory (run_turns ts) @ [turn_message (length ts) (UserTurn c now)])
   \<and> length (getHistory (run_turns ts))
       \<le> 5 + 6 * longest_assistant_run (all_messages ts)"
proof -
  define h where "h = history (run_turns ts)"
  have w: "h = window (all_messages ts)" by (simp add: h_def run_turns_window)
  have cu: "count_user h = min 5 (length (filter is_user_turn ts))"
    by (simp add: w count_window count_user_all_messages maxUserMessages_def)
  obtain n where n: "h = drop n (all_messages ts)" using window_is_drop w by metis
  define L where "L = longest_assistant_run (all_messages ts)"
  have L: "longest_assistant_run h \<le> L" unfolding n L_def by (rule longest_run_drop)
  from length_bound_runs[of h] have
    b: "length h \<le> assistant_run h + count_user h * (1 + longest_assistant_run h)"
    and a: "assistant_run h \<le> longest_assistant_run h" by simp_all
  have "count_user h \<le> maxUserMessages" using cu by (simp add: maxUserMessages_def)
  then have "count_user h * (1 + longest_assistant_run h) \<le> maxUserMessages * (1 + L)"
    using L by (intro mult_le_mono) simp_all
  then have "length h \<le> L + maxUserMessages * (1 + L)" using a b L by linarith
  then have len: "length h \<le> 5 + 6 * L" by (simp add: maxUserMessages_def)
  have sa: "getHistory (addAssistantMessage (run_turns ts) c now)
       = h @ [turn_message (length ts) (AssistantTurn c now)]"
    using run_turns_window[of "ts @ [AssistantTurn c now]"] run_turns_window[of ts]
    by (simp add: getHistory_def run_turns_snoc all_messages_snoc window_snoc_assistant h_def)
  have su: "getHistory (addUserMessage (run_turns ts) c now)
       = window (h @ [turn_message (length ts) (UserTurn c now)])"
    using run_turns_window[of "ts @ [UserTurn c now]"] run_turns_window[of ts]
    by (simp add: getHistory_def run_turns_snoc all_messages_snoc window_snoc_user h_def)
  have ex: "\<exists>n. h = drop n (all_messages ts)" using n by blast
  show ?thesis using w cu ex sa su len
    unfolding getHistory_def h_def[symmetric] L_def[symmetric]
    by (simp add: maxUserMessages_def)
qed

subsection \<open>PlanManager metadata\<close>

lemma update_success:
  assumes "update save repo plan u now = (Inr plan', repo')"
  shows "plan' = apply_update plan u now"
  using assms by (auto simp: update_def Let_def split: if_splits)

lemma apply_update_metadata:
  "pm_version (mp_metadata (apply_update plan u now)) = js_add (pm_version (mp_metadata plan)) 1"
  "pm_createdAt (mp_metadata (apply_update plan u now)) = pm_createdAt (mp_metadata plan)"
  "pm_updatedAt (mp_metadata (apply_update plan u now)) = now"
  by (simp_all add: apply_update_def)

lemma to_double_safe: "\<bar>x\<bar> \<le> 2 ^ 53 \<Longrightarrow> to_double x = x"
  by (simp add: to_double_def)

lemma to_double_above_top: "to_double 9007199254740993 = 9007199254740992"
  by (simp add: to_double_def bit_length.simps cong: let_weak_cong)

lemma js_add_one_safe:
  assumes "\<bar>v\<bar> < 2 ^ 53"
  shows "js_add v 1 = v + 1"
proof -
  from assms have "\<bar>v + 1\<bar> \<le> 2 ^ 53" by simp
  then show ?thesis unfolding js_add_def by (rule to_double_safe)
qed

lemma js_add_one_bounds:
  assumes "\<bar>v\<bar> \<le> 2 ^ 53"
  shows "v \<le> js_add v 1 \<and> \<bar>js_add v 1\<bar> \<le> 2 ^ 53"
proof (cases "v = 2 ^ 53")
  case True
  then show ?thesis by (simp add: js_add_def to_double_above_top)
next
  case False
  with assms have b: "\<bar>v + 1\<bar> \<le> 2 ^ 53" by simp
  have "js_add v 1 = v + 1" unfolding js_add_def using b by (rule to_double_safe)
  with b show ?thesis by simp
qed

lemma run_updates_createdAt:
  "pm_createdAt (mp_metadata (fst (run_updates save repo plan us))) = pm_createdAt (mp_metadata plan)"
proof (induction us arbitrary: plan repo)
  case Nil
  then show ?case by simp
next
  case (Cons a us)
  obtain u now where a: "a = (u, now)" by (cases a)
  obtain res repo' where r: "update save repo plan u now = (res, repo')"
    by (cases "update save repo plan u now")
  show ?case
  proof (cases res)
    case (Inl e)
    then show ?thesis using a r Cons.IH[of repo' plan] by simp
  next
    case (Inr plan')
    have p': "plan' = apply_update plan u now" using r Inr by (simp add: update_success)
    show ?thesis using a r Inr Cons.IH[of repo' plan'] by (simp add: p' apply_update_metadata)
  qed
qed

lemma run_updates_version:
  "\<bar>pm_version (mp_metadata plan)\<bar> \<le> 2 ^ 53 \<Longrightarrow>
   pm_version (mp_metadata plan) \<le> pm_version (mp_metadata (fst (run_updates save repo plan us)))
   \<and> \<bar>pm_version (mp_metadata (fst (run_updates save repo plan us)))\<bar> \<le> 2 ^ 53"
proof (induction us arbitrary: plan repo)
  case Nil
  then show ?case by simp
next
  case (Cons a us)
  obtain u now where a: "a = (u, now)" by (cases a)
  obtain res repo' where r: "update save repo plan u now = (res, repo')"
    by (cases "update save repo plan u now")
  show ?case
  proof (cases res)
    case (Inl e)
    then show ?thesis using a r Cons.IH[OF Cons.prems, of repo'] by simp
  next
    case (Inr plan')
    have p': "plan' = apply_update plan u now" using r Inr by (simp add: update_success)
    from js_add_one_bounds[OF Cons.prems] have
      b: "pm_version (mp_metadata plan) \<le> pm_version (mp_metadata plan')"
         "\<bar>pm_version (mp_metadata plan')\<bar> \<le> 2 ^ 53"
      by (simp_all add: p' apply_update_metadata)
    from Cons.IH[OF b(2), of repo'] b(1) show ?thesis using a r Inr by simp
  qed
qed

lemma run_updates_ordered:
  "timestamps_ordered plan \<Longrightarrow> never_before (pm_createdAt (mp_metadata plan)) us \<Longrightarrow>
   timestamps_ordered (fst (run_updates save repo plan us))"
proof (induction us arbitrary: plan repo)
  case Nil
  then show ?case by simp
next
  case (Cons a us)
  obtain u now where a: "a = (u, now)" by (cases a)
  obtain res repo' where r: "update save repo plan u now = (res, repo')"
    by (cases "update save repo plan u now")
  from Cons.prems(2) a have now: "pm_createdAt (mp_metadata plan) \<le> now"
    and rest: "never_before (pm_createdAt (mp_metadata plan)) us"
    by (simp_all add: never_before_def)
  show ?case
  proof (cases res)
    case (Inl e)
    then show ?thesis using a r Cons.IH[OF Cons.prems(1) rest, of repo'] by simp
  next
    case (Inr plan')
    have p': "plan' = apply_update plan u now" using r Inr by (simp add: update_success)
    have o: "timestamps_ordered plan'"
      using now by (simp add: p' timestamps_ordered_def apply_update_metadata)
    have c: "pm_createdAt (mp_metadata plan') = pm_createdAt (mp_metadata plan)"
      by (simp add: p' apply_update_metadata)
    from Cons.IH[OF o rest[folded c], of repo'] show ?thesis using a r Inr by simp
  qed
qed

lemma example_update_early:
  "update (#) [] example_plan example_update 50
     = (Inr (apply_update example_plan example_update 50),
        [apply_update example_plan example_update 50])"
  by (simp add: update_def validate_def apply_update_def example_plan_def example_update_def
      create_def Let_def js_def trim_def is_space_def)

text \<open>
  C8, as stated, fails: \<open>update\<close> stores the clock reading without comparing it to
  anything. A plan created at time 100 and updated successfully at a reading of 50 has
  \<open>updatedAt < createdAt\<close>.
\<close>

theorem update_at_earlier_clock_reading:
  "update (#) [] example_plan example_update 50
     = (Inr (apply_update example_plan example_update 50),
        [apply_update example_plan example_update 50])
   \<and> timestamps_ordered example_plan
   \<and> pm_createdAt (mp_metadata (apply_update example_plan example_update 50)) = 100
   \<and> pm_updatedAt (mp_metadata (apply_update example_plan example_update 50)) = 50
   \<and> \<not> timestamps_ordered (apply_update example_plan example_update 50)"
  using example_update_early
  by (simp add: timestamps_ordered_def apply_update_metadata)
     (simp add: example_plan_def create_def)

text \<open>
  C8, amended. \<open>create\<close> yields version 1 and two successive clock readings as
  \<open>createdAt\<close> and \<open>updatedAt\<close>. Every successful \<open>update\<close> leaves
  \<open>createdAt\<close> unchanged, sets \<open>updatedAt\<close> to the clock reading, so that
  \<open>updatedAt \<ge> createdAt\<close> holds afterwards exactly when that reading is not
  earlier than \<open>createdAt\<close>, and adds one to the version as a double does: exactly
  one below \<open>2^53\<close>. Over any sequence of updates, failed ones included,
  \<open>createdAt\<close> stays; the version, starting at most \<open>2^53\<close> in magnitude, never
  decreases, whatever the clock does; and the timestamps stay ordered when no reading
  is earlier than \<open>createdAt\<close>.
\<close>

theorem update_metadata_effect:
  "pm_version (mp_metadata (create uuid sid g now1 now2)) = 1
   \<and> pm_createdAt (mp_metadata (create uuid sid g now1 now2)) = now1
   \<and> pm_updatedAt (mp_metadata (create uuid sid g now1 now2)) = now2
   \<and> timestamps_ordered (create uuid sid g now1 now2) = (now1 \<le> now2)
   \<and> (update save repo plan u now = (Inr plan', repo') \<longrightarrow>
        pm_version (mp_metadata plan') = js_add (pm_version (mp_metadata plan)) 1
        \<and> (\<bar>pm_version (mp_metadata plan)\<bar> < 2 ^ 53 \<longrightarrow>
             pm_version (mp_metadata plan') = pm_version (mp_metadata plan) + 1)
        \<and> pm_createdAt (mp_metadata plan') = pm_createdAt (mp_metadata plan)
        \<and> pm_updatedAt (mp_metadata plan') = now
        \<and> timestamps_ordered plan' = (pm_createdAt (mp_metadata plan) \<le> now))
   \<and> pm_createdAt (mp_metadata (fst (run_updates save repo plan us)))
       = pm_createdAt (mp_metadata plan)
   \<and> (\<bar>pm_version (mp_metadata plan)\<bar> \<le> 2 ^ 53 \<longrightarrow>
        pm_version (mp_metadata plan)
          \<le> pm_version (mp_metadata (fst (run_updates save repo plan us)))
        \<and> \<bar>pm_version (mp_metadata (fst (run_updates save repo plan us)))\<bar> \<le> 2 ^ 53)
   \<and> (timestamps_ordered plan \<and> never_before (pm_createdAt (mp_metadata plan)) us \<longrightarrow>
        timestamps_ordered (fst (run_updates save repo plan us)))"
proof -
  have c: "pm_version (mp_metadata (create uuid sid g now1 now2)) = 1
     \<and> pm_createdAt (mp_metadata (create uuid sid g now1 now2)) = now1
     \<and> pm_updatedAt (mp_metadata (create uuid sid g now1 now2)) = now2
     \<and> timestamps_ordered (create uuid sid g now1 now2) = (now1 \<le> now2)"
    by (simp add: create_def timestamps_ordered_def)
  have u: "update save repo plan u now = (Inr plan', repo') \<longrightarrow>
        pm_version (mp_metadata plan') = js_add (pm_version (mp_metadata plan)) 1
        \<and> (\<bar>pm_version (mp_metadata plan)\<bar> < 2 ^ 53 \<longrightarrow>
             pm_version (mp_metadata plan') = pm_version (mp_metadata plan) + 1)
        \<and> pm_createdAt (mp_metadata plan') = pm_createdAt (mp_metadata plan)
        \<and> pm_updatedAt (mp_metadata plan') = now
        \<and> timestamps_ordered plan' = (pm_createdAt (mp_metadata plan) \<le> now)"
  proof
    assume "update save repo plan u now = (Inr plan', repo')"
    then have "plan' = apply_update plan u now" by (rule update_success)
    then show "pm_version (mp_metadata plan') = js_add (pm_version (mp_metadata plan)) 1
        \<and> (\<bar>pm_version (mp_metadata plan)\<bar> < 2 ^ 53 \<longrightarrow>
             pm_version (mp_metadata plan') = pm_version (mp_metadata plan) + 1)
        \<and> pm_createdAt (mp_metadata plan') = pm_createdAt (mp_metadata plan)
        \<and> pm_updatedAt (mp_metadata plan') = now
        \<and> timestamps_ordered plan' = (pm_createdAt (mp_metadata plan) \<le> now)"
      by (simp add: apply_update_metadata timestamps_ordered_def js_add_one_safe)
  qed
  show ?thesis
    using c u run_updates_createdAt[of save repo plan us] run_updates_version[of plan save repo us]
      run_updates_ordered[of plan us save repo]
    by blast
qed

theorem update_metadata_effect_witness:
  "update (#) [] example_plan example_update 200
       = (Inr (apply_update example_plan example_update 200),
          [apply_update example_plan example_update 200])
   \<and> \<bar>pm_version (mp_metadata example_plan)\<bar> < 2 ^ 53
   \<and> pm_version (mp_metadata (apply_update example_plan example_update 200)) = 2
   \<and> timestamps_ordered (apply_update example_plan example_update 200)
   \<and> timestamps_ordered example_plan
   \<and> never_before (pm_createdAt (mp_metadata example_plan))
        [(example_update, 200), (example_update, 300)]
   \<and> 1 \<le> pm_version (mp_metadata (fst (run_updates (#) [] example_plan
         [(example_update, 200), (example_update, 300)])))
   \<and> timestamps_ordered (fst (run_updates (#) [] example_plan
         [(example_update, 200), (example_update, 300)]))"
proof -
  have o: "timestamps_ordered example_plan" "pm_createdAt (mp_metadata example_plan) = 100"
    "pm_version (mp_metadata example_plan) = 1"
    by (simp_all add: example_plan_def create_def timestamps_ordered_def)
  have ok: "update (#) [] example_plan example_update 200
     = (Inr (apply_update example_plan example_update 200),
        [apply_update example_plan example_update 200])"
    by (simp add: update_def validate_def apply_update_def example_plan_def example_update_def
      create_def Let_def js_def trim_def is_space_def)
  have nb: "never_before (pm_createdAt (mp_metadata example_plan))
        [(example_update, 200), (example_update, 300)]"
    by (simp add: never_before_def o)
  note t = update_metadata_effect[of "js ''id''" "js ''s''" "js ''goal''" 100 100
      "(#)" "[]" example_plan example_update 200 "apply_update example_plan example_update 200"
      "[apply_update example_plan example_update 200]"
      "[(example_update, 200), (example_update, 300)]"]
  show ?thesis using t o ok nb by simp
qed

subsection \<open>Saving the plan\<close>

lemma serialize_plan_a: "serialize utc_env plan_a = Inr (text_for_goal (js ''a''))"
  by (simp add: plan_a_def getDefaultPlan_def text_for_goal_def serializer_defs)

lemma serialize_plan_b: "serialize utc_env plan_b = Inr (text_for_goal (js ''b''))"
  by (simp add: plan_b_def getDefaultPlan_def text_for_goal_def serializer_defs)

text \<open>
  C9, as stated, fails: \<open>savePlan\<close> takes no expected version and compares nothing.
  Two writes made from the same version 1 both succeed, and the second replaces what the
  first stored.
\<close>

theorem savePlan_overwrites_same_version:
  "version (metadata plan_a) = 1 \<and> version (metadata plan_b) = 1
   \<and> PlanManager_savePlan utc_env (js ''s'') [plan_path (js ''s'') \<mapsto> text_for_goal (js ''old'')] plan_a
       = Inr [plan_path (js ''s'') \<mapsto> text_for_goal (js ''a'')]
   \<and> PlanManager_savePlan utc_env (js ''s'') [plan_path (js ''s'') \<mapsto> text_for_goal (js ''a'')] plan_b
       = Inr [plan_path (js ''s'') \<mapsto> text_for_goal (js ''b'')]
   \<and> text_for_goal (js ''b'') \<noteq> text_for_goal (js ''a'')"
  by (simp add: PlanManager_savePlan_def savePlan_def serialize_plan_a serialize_plan_b)
     (simp add: plan_a_def plan_b_def getDefaultPlan_def text_for_goal_def js_def)

text \<open>
  C9, amended. \<open>savePlan\<close> is an unconditional write: whenever the plan serializes,
  the write succeeds and the plan file holds exactly the serialized plan afterwards,
  whatever it held before and whatever versions the two carry; no other file changes.
  So of two successive writes the later one wins.
\<close>

theorem savePlan_unconditional:
  assumes "ser p = Inr markdown"
  shows "\<exists>fs'. savePlan ser sessionPath fs p = Inr fs'
     \<and> fs' (plan_path sessionPath) = Some markdown
     \<and> (\<forall>path. path \<noteq> plan_path sessionPath \<longrightarrow> fs' path = fs path)"
  using assms by (simp add: savePlan_def)

theorem savePlan_unconditional_witness:
  "serialize utc_env plan_b = Inr (text_for_goal (js ''b''))
   \<and> (\<exists>fs'. savePlan (serialize utc_env) (js ''s'')
          [plan_path (js ''s'') \<mapsto> text_for_goal (js ''a'')] plan_b = Inr fs'
        \<and> fs' (plan_path (js ''s'')) = Some (text_for_goal (js ''b'')))"
  using savePlan_unconditional[where ser = "serialize utc_env" and p = plan_b
      and markdown = "text_for_goal (js ''b'')" and sessionPath = "js ''s''"
      and fs = "[plan_path (js ''s'') \<mapsto> text_for_goal (js ''a'')]", OF serialize_plan_b]
    serialize_plan_b
  by blast

subsection \<open>SimpleOrchestrator\<close>
text \<open>
  C10. For every user message and every injected client, \<open>processMessage\<close> succeeds
  exactly when the client's \<open>chat\<close> succeeds on the request it is sent; on success the
  value is the content of the response's message, on failure the client's error is
  returned unchanged. The request ends with the user message, which is preceded by
  exactly one system message (carrying the prompt) when a system prompt is configured,
  that is set and non-empty, and by nothing otherwise.
\<close>

theorem processMessage_result:
  "(case client_chat (processMessage_request so u) of
      Inr v \<Rightarrow> processMessage so client_chat u = Inr (content (message v))
    | Inl e \<Rightarrow> processMessage so client_chat u = Inl e)
   \<and> (isl (processMessage so client_chat u) = isl (client_chat (processMessage_request so u)))
   \<and> last (messages (processMessage_request so u)) = \<lparr>role = RUser, content = u\<rparr>
   \<and> butlast (messages (processMessage_request so u)) =
       (case systemPrompt so of
          None \<Rightarrow> []
        | Some p \<Rightarrow> if p = [] then [] else [\<lparr>role = RSystem, content = p\<rparr>])"
  by (simp add: processMessage_def processMessage_request_def processMessage_messages_def
      truthy_def split: sum.splits option.splits)

end
